theory Spec2Isabelle
  imports
    Main
    "HOL-Library.Word"
    "HOL-Library.AList"
    "HOL-Library.Char_ord"
    "HOL-Library.List_Lexorder"
begin

unbundle bit_operations_syntax

section \<open>Go primitives used by the EC2 client\<close>

text \<open>
  A Go \<open>map[string]string\<close> is a partial function from keys to values: an assignment
  \<open>params[k] = v\<close> is the update \<open>params(k \<mapsto> v)\<close>, which overwrites, and a key that
  was never assigned is \<open>None\<close>. The client mutates one such map in place; the model
  returns the updated map.
\<close>

type_synonym params = "string \<rightharpoonup> string"

subsection \<open>strconv.Itoa and strconv.FormatInt in base 10\<close>

text \<open>
  Go's \<open>int\<close> and \<open>int64\<close> are 64 bits wide. The client never does arithmetic on the
  numbers it formats, apart from \<open>i+1\<close> on a slice index, which cannot overflow; so the
  numbers are modelled as unbounded integers. \<open>strconv.Itoa\<close> writes the decimal digits,
  most significant first, after a minus sign for a negative number.
\<close>

definition digit_char :: "nat \<Rightarrow> char" where
  "digit_char d = ''0123456789'' ! d"

function formatBits :: "nat \<Rightarrow> string" where
  "formatBits n =
     (if n < 10 then [digit_char n] else formatBits (n div 10) @ [digit_char (n mod 10)])"
  by pat_completeness auto
termination
  by (relation "measure id") auto

declare formatBits.simps [simp del]

definition Itoa :: "int \<Rightarrow> string" where
  "Itoa i = (if i < 0 then CHR ''-'' # formatBits (nat (- i)) else formatBits (nat i))"

definition FormatInt10 :: "int \<Rightarrow> string" where
  "FormatInt10 i = Itoa i"

text \<open>Reading a digit string back, used only to show that formatting loses nothing.\<close>

definition digit_val :: "char \<Rightarrow> nat" where
  "digit_val c = of_char c - 48"

definition parse_digits :: "string \<Rightarrow> nat" where
  "parse_digits s = foldl (\<lambda>a c. 10 * a + digit_val c) 0 s"

definition is_digit :: "char \<Rightarrow> bool" where
  "is_digit c = (c \<in> set ''0123456789'')"

subsection \<open>The range loop\<close>

text \<open>
  \<open>for i, x := range xs { body }\<close> runs the body on every element in order, with the
  index counted from 0. The state \<open>'s\<close> is whatever the body updates: the parameter map,
  and the counters of the loops that keep their own.
\<close>

fun for_range_from :: "nat \<Rightarrow> (nat \<Rightarrow> 'a \<Rightarrow> 's \<Rightarrow> 's) \<Rightarrow> 'a list \<Rightarrow> 's \<Rightarrow> 's" where
  "for_range_from i body [] s = s"
| "for_range_from i body (x # xs) s = for_range_from (Suc i) body xs (body i x s)"

definition for_range :: "(nat \<Rightarrow> 'a \<Rightarrow> 's \<Rightarrow> 's) \<Rightarrow> 'a list \<Rightarrow> 's \<Rightarrow> 's" where
  "for_range body xs s = for_range_from 0 body xs s"

section \<open>Request parameters\<close>

subsection \<open>makeParams, addParamsList\<close>

definition makeParams :: "string \<Rightarrow> params" where
  "makeParams action = Map.empty(''Action'' \<mapsto> action)"

definition addParamsList :: "params \<Rightarrow> string \<Rightarrow> string list \<Rightarrow> params" where
  "addParamsList params label ids =
     for_range (\<lambda>i id params. params(label @ ''.'' @ Itoa (int i + 1) \<mapsto> id)) ids params"

subsection \<open>addBlockDeviceParams\<close>

record BlockDeviceMapping =
  DeviceName :: string
  VirtualName :: string
  SnapshotId :: string
  VolumeType :: string
  VolumeSize :: int
  DeleteOnTermination :: bool
  NoDevice :: bool
  IOPS :: int

definition set_if :: "bool \<Rightarrow> string \<Rightarrow> string \<Rightarrow> params \<Rightarrow> params" where
  "set_if c key v params = (if c then params(key \<mapsto> v) else params)"

definition blockDeviceStep :: "string \<Rightarrow> nat \<Rightarrow> BlockDeviceMapping \<Rightarrow> params \<Rightarrow> params" where
  "blockDeviceStep prename i k params =
     (let prefix = prename @ ''BlockDeviceMapping.'' @ Itoa (int i + 1) @ ''.'';
          params = set_if (DeviceName k \<noteq> '''') (prefix @ ''DeviceName'') (DeviceName k) params;
          params = set_if (VirtualName k \<noteq> '''') (prefix @ ''VirtualName'') (VirtualName k) params;
          params = set_if (SnapshotId k \<noteq> '''') (prefix @ ''Ebs.SnapshotId'') (SnapshotId k) params;
          params = set_if (VolumeType k \<noteq> '''') (prefix @ ''Ebs.VolumeType'') (VolumeType k) params;
          params = set_if (IOPS k \<noteq> 0) (prefix @ ''Ebs.Iops'') (FormatInt10 (IOPS k)) params;
          params = set_if (VolumeSize k \<noteq> 0) (prefix @ ''Ebs.VolumeSize'')
                     (FormatInt10 (VolumeSize k)) params;
          params = set_if (DeleteOnTermination k) (prefix @ ''Ebs.DeleteOnTermination'')
                     ''true'' params;
          params = set_if (NoDevice k) (prefix @ ''NoDevice'') ''true'' params
      in params)"

definition addBlockDeviceParams :: "string \<Rightarrow> params \<Rightarrow> BlockDeviceMapping list \<Rightarrow> params" where
  "addBlockDeviceParams prename params blockdevices =
     for_range (blockDeviceStep prename) blockdevices params"

text \<open>The sub-keys a block device can emit, in the order the code tests them.\<close>

definition blockDeviceSubKeys :: "string list" where
  "blockDeviceSubKeys =
     [''DeviceName'', ''VirtualName'', ''Ebs.SnapshotId'', ''Ebs.VolumeType'', ''Ebs.Iops'',
      ''Ebs.VolumeSize'', ''Ebs.DeleteOnTermination'', ''NoDevice'']"

definition blockDevicePrefix :: "string \<Rightarrow> nat \<Rightarrow> string" where
  "blockDevicePrefix prename i = prename @ ''BlockDeviceMapping.'' @ Itoa (int i + 1) @ ''.''"

text \<open>A block device used to exercise the block-device theorem on a concrete input.\<close>

definition demo_device :: BlockDeviceMapping where
  "demo_device = \<lparr>DeviceName = ''/dev/sda1'', VirtualName = '''', SnapshotId = ''snap-1'',
     VolumeType = '''', VolumeSize = 8, DeleteOnTermination = True, NoDevice = False, IOPS = 0\<rparr>"

subsection \<open>Filter\<close>

text \<open>
  \<open>Filter\<close> wraps a Go \<open>map[string][]string\<close>. The map is an association list with
  one entry per key; the order of the entries stands for the order in which Go happens to
  iterate over the map, which the language leaves open. A \<open>*Filter\<close> that may be nil is
  a \<open>Filter option\<close>.
\<close>

datatype Filter = Filter (Filter_m: "(string \<times> string list) list")

text \<open>Indexing a map of slices: a key that is absent yields the nil slice.\<close>

definition slice_at :: "(string \<times> string list) list \<Rightarrow> string \<Rightarrow> string list" where
  "slice_at al k = (case map_of al k of None \<Rightarrow> [] | Some vs \<Rightarrow> vs)"

definition NewFilter :: Filter where
  "NewFilter = Filter []"

definition Add :: "Filter \<Rightarrow> string \<Rightarrow> string list \<Rightarrow> Filter" where
  "Add f name value =
     Filter (AList.update name (slice_at (Filter_m f) name @ value) (Filter_m f))"

definition filterStep :: "(string \<times> string list) list \<Rightarrow> nat \<Rightarrow> string \<Rightarrow> params \<Rightarrow> params" where
  "filterStep fm i k params =
     (let prefix = ''Filter.'' @ Itoa (int i + 1);
          params = params(prefix @ ''.Name'' \<mapsto> k)
      in for_range (\<lambda>j v params. params(prefix @ ''.Value.'' @ Itoa (int j + 1) \<mapsto> v))
           (slice_at fm k) params)"

definition addParams :: "Filter option \<Rightarrow> params \<Rightarrow> params" where
  "addParams f params =
     (case f of
        None \<Rightarrow> params
      | Some flt \<Rightarrow>
          (let a = map fst (Filter_m flt);
               a = sort a
           in for_range (filterStep (Filter_m flt)) a params))"

text \<open>The names of the keys a filter emits, and the sorted names of a filter.\<close>

definition filterNameKey :: "nat \<Rightarrow> string" where
  "filterNameKey i = ''Filter.'' @ Itoa (int i + 1) @ ''.Name''"

definition filterValueKey :: "nat \<Rightarrow> nat \<Rightarrow> string" where
  "filterValueKey i j = ''Filter.'' @ Itoa (int i + 1) @ ''.Value.'' @ Itoa (int j + 1)"

definition filterNames :: "Filter \<Rightarrow> string list" where
  "filterNames f = sort (map fst (Filter_m f))"

text \<open>Two filters with the same contents, built by the same calls in a different order.\<close>

definition demo_filter :: Filter where
  "demo_filter = Add (Add NewFilter ''launch-index'' [''0'']) ''architecture'' [''i386'', ''x86_64'']"

definition demo_filter_swapped :: Filter where
  "demo_filter_swapped =
     Add (Add NewFilter ''architecture'' [''i386'', ''x86_64'']) ''launch-index'' [''0'']"

section \<open>Request dispatching\<close>

subsection \<open>Errors, responses and the world outside the package\<close>

text \<open>
  \<open>Error\<close> is the error value the package builds from an EC2 error response. A Go
  \<open>error\<close> returned by the package is either a pointer to such a value or an error of
  a library it calls (\<open>net/url\<close>, \<open>net/http\<close>, \<open>encoding/xml\<close>, \<open>crypto/rand\<close>); a nil
  error is \<open>None\<close>.
\<close>

record Error =
  StatusCode :: int
  Code :: string
  Message :: string
  RequestId :: string

datatype error = LibError string | EC2Error Error

record xmlErrors =
  xmlErrors_RequestId :: string
  Errors :: "Error list"

text \<open>The fields of \<open>http.Response\<close> and of \<open>url.URL\<close> that the package reads or writes.\<close>

record Response =
  resp_Status :: string
  resp_StatusCode :: int
  Body :: string

record URL =
  Scheme :: string
  Host :: string
  Path :: string
  RawQuery :: string

text \<open>
  What the package takes from its surroundings is collected in one record: the clock behind
  the package variable \<open>timeNow\<close> with the formatting \<open>In(time.UTC).Format(time.RFC3339)\<close>,
  \<open>url.Parse\<close> and \<open>URL.String\<close>, the package's own \<open>sign\<close> (in another file of the
  package), \<open>url.Values.Encode\<close>, the XML decoder for a response struct of type \<open>'r\<close> and
  for the error envelope (each returns the struct as the decoder left it, and its error),
  the bytes and the error \<open>crypto/rand\<close> has to offer, and the package's base64 encoding
  \<open>b64\<close>. The theorems hold for every such record.
\<close>

record ('a, 't, 'r) env =
  timeNow :: 't
  time_UTC_RFC3339 :: "'t \<Rightarrow> string"
  url_Parse :: "string \<Rightarrow> error + URL"
  url_String :: "URL \<Rightarrow> string"
  sign :: "'a \<Rightarrow> string \<Rightarrow> string \<Rightarrow> params \<Rightarrow> string \<Rightarrow> params"
  values_Encode :: "(string \<rightharpoonup> string list) \<Rightarrow> string"
  xml_Decode :: "string \<Rightarrow> 'r \<Rightarrow> 'r \<times> error option"
  xml_Decode_errors :: "string \<Rightarrow> xmlErrors \<Rightarrow> xmlErrors \<times> error option"
  rand_source :: "8 word list \<times> error option"
  b64_EncodeToString :: "8 word list \<Rightarrow> string"

text \<open>
  An \<open>*http.Client\<close> is what its \<open>Get\<close> does: given a URL and the state \<open>'w\<close> of the
  network it returns a response or an error, and the new state of the network. The state
  the package runs in keeps, next to the network, the list of the URLs the package has
  passed to \<open>httpClient.Get\<close>, one entry per call.
\<close>

type_synonym 'w http_client = "string \<Rightarrow> 'w \<Rightarrow> (error + Response) \<times> 'w"

record 'w state =
  gets :: "string list"
  net :: 'w

record Region =
  EC2Endpoint :: string

record ('a, 'w) EC2 =
  Auth :: 'a
  Region :: Region
  httpClient :: "'w http_client"
  private_byte :: "8 word"

definition NewWithClient :: "'a \<Rightarrow> Region \<Rightarrow> 'w http_client \<Rightarrow> ('a, 'w) EC2" where
  "NewWithClient auth region client =
     \<lparr>Auth = auth, Region = region, httpClient = client, private_byte = 0\<rparr>"

text \<open>\<open>aws.RetryingClient\<close> is a variable of the package \<open>aws\<close>; it is a parameter here.\<close>

definition New :: "'w http_client \<Rightarrow> 'a \<Rightarrow> Region \<Rightarrow> ('a, 'w) EC2" where
  "New RetryingClient auth region = NewWithClient auth region RetryingClient"

definition http_Get :: "'w http_client \<Rightarrow> string \<Rightarrow> 'w state \<Rightarrow> (error + Response) \<times> 'w state" where
  "http_Get client url st =
     (let (r, n) = client url (net st)
      in (r, st\<lparr>gets := gets st @ [url], net := n\<rparr>))"

subsection \<open>query, multimap, buildError\<close>

definition multimap :: "params \<Rightarrow> (string \<rightharpoonup> string list)" where
  "multimap p = (\<lambda>k. case p k of None \<Rightarrow> None | Some v \<Rightarrow> Some [v])"

definition zero_Error :: Error where
  "zero_Error = \<lparr>StatusCode = 0, Code = '''', Message = '''', RequestId = ''''\<rparr>"

definition zero_xmlErrors :: xmlErrors where
  "zero_xmlErrors = \<lparr>xmlErrors_RequestId = '''', Errors = []\<rparr>"

definition buildError :: "('a, 't, 'r) env \<Rightarrow> Response \<Rightarrow> error" where
  "buildError env r =
     (let errors = fst (xml_Decode_errors env (Body r) zero_xmlErrors);
          err = zero_Error;
          err = (if length (Errors errors) > 0 then Errors errors ! 0 else err);
          err = err\<lparr>RequestId := xmlErrors_RequestId errors\<rparr>;
          err = err\<lparr>StatusCode := resp_StatusCode r\<rparr>;
          err = (if Message err = '''' then err\<lparr>Message := resp_Status r\<rparr> else err)
      in EC2Error err)"

text \<open>
  \<open>query\<close> returns an error; it changes the parameter map and the response struct it is
  given, and the world. The model returns all four. Closing the response body and the
  logging under \<open>debug\<close>, which is the constant \<open>false\<close>, are left out.
\<close>

record ('r, 'w) outcome =
  out_err :: "error option"
  out_params :: params
  out_resp :: 'r
  out_state :: "'w state"

definition query ::
  "('a, 't, 'r) env \<Rightarrow> ('a, 'w) EC2 \<Rightarrow> params \<Rightarrow> 'r \<Rightarrow> 'w state \<Rightarrow> ('r, 'w) outcome" where
  "query env ec2 params resp st =
     (let params = params(''Version'' \<mapsto> ''2014-02-01'');
          params = params(''Timestamp'' \<mapsto> time_UTC_RFC3339 env (timeNow env))
      in case url_Parse env (EC2Endpoint (Region ec2)) of
           Inl err \<Rightarrow> \<lparr>out_err = Some err, out_params = params, out_resp = resp, out_state = st\<rparr>
         | Inr endpoint \<Rightarrow>
             (let endpoint = (if Path endpoint = '''' then endpoint\<lparr>Path := ''/''\<rparr> else endpoint);
                  params = sign env (Auth ec2) ''GET'' (Path endpoint) params (Host endpoint);
                  endpoint = endpoint\<lparr>RawQuery := values_Encode env (multimap params)\<rparr>;
                  (r, st) = http_Get (httpClient ec2) (url_String env endpoint) st
              in case r of
                   Inl err \<Rightarrow>
                     \<lparr>out_err = Some err, out_params = params, out_resp = resp, out_state = st\<rparr>
                 | Inr r \<Rightarrow>
                     if resp_StatusCode r \<noteq> 200
                     then \<lparr>out_err = Some (buildError env r), out_params = params,
                            out_resp = resp, out_state = st\<rparr>
                     else (let (resp, err) = xml_Decode env (Body r) resp
                           in \<lparr>out_err = err, out_params = params, out_resp = resp,
                                out_state = st\<rparr>)))"

subsection \<open>A concrete environment, used to run the model on concrete inputs\<close>

text \<open>
  The functions below stand in for the libraries on the few inputs the examples use: a
  parser that rejects a URL starting with a colon (\<open>net/url\<close> reports a missing protocol
  scheme there) and splits \<open>https://host/path\<close>, a signature that adds one key, an
  encoder that writes the action only, decoders that read fixed bodies. The network state
  is the list of the requests that reached the network.
\<close>

definition demo_url_Parse :: "string \<Rightarrow> error + URL" where
  "demo_url_Parse s =
     (if take 1 s = '':'' then Inl (LibError ''missing protocol scheme'')
      else if take 8 s = ''https://''
      then Inr \<lparr>Scheme = ''https'', Host = takeWhile (\<lambda>c. c \<noteq> CHR ''/'') (drop 8 s),
                Path = dropWhile (\<lambda>c. c \<noteq> CHR ''/'') (drop 8 s), RawQuery = ''''\<rparr>
      else Inr \<lparr>Scheme = '''', Host = '''', Path = s, RawQuery = ''''\<rparr>)"

definition demo_url_String :: "URL \<Rightarrow> string" where
  "demo_url_String u = Scheme u @ ''://'' @ Host u @ Path u @ ''?'' @ RawQuery u"

definition demo_sign :: "unit \<Rightarrow> string \<Rightarrow> string \<Rightarrow> params \<Rightarrow> string \<Rightarrow> params" where
  "demo_sign auth method path params host = params(''Signature'' \<mapsto> method @ path @ host)"

definition demo_Encode :: "(string \<rightharpoonup> string list) \<Rightarrow> string" where
  "demo_Encode q = (case q ''Action'' of Some [v] \<Rightarrow> ''Action='' @ v | _ \<Rightarrow> '''')"

definition demo_xml_Decode :: "string \<Rightarrow> string \<Rightarrow> string \<times> error option" where
  "demo_xml_Decode body resp =
     (if body = '''' then (resp, Some (LibError ''EOF'')) else (body, None))"

definition demo_error_body :: string where
  "demo_error_body = ''<Response><Errors><Error><Code>AuthFailure</Code></Error></Errors><RequestID>req-1</RequestID></Response>''"

definition demo_xml_Decode_errors :: "string \<Rightarrow> xmlErrors \<Rightarrow> xmlErrors \<times> error option" where
  "demo_xml_Decode_errors body e =
     (if body = demo_error_body
      then (\<lparr>xmlErrors_RequestId = ''req-1'',
              Errors = [\<lparr>StatusCode = 0, Code = ''AuthFailure'', Message = '''', RequestId = ''''\<rparr>]\<rparr>,
            None)
      else (e, Some (LibError ''EOF'')))"

definition demo_env :: "(unit, nat, string) env" where
  "demo_env =
     \<lparr>timeNow = 0, time_UTC_RFC3339 = (\<lambda>t. ''1970-01-01T00:00:00Z''),
      url_Parse = demo_url_Parse, url_String = demo_url_String, sign = demo_sign,
      values_Encode = demo_Encode, xml_Decode = demo_xml_Decode,
      xml_Decode_errors = demo_xml_Decode_errors,
      rand_source = (map of_nat [0..<32], None),
      b64_EncodeToString = (\<lambda>bs. '''')\<rparr>"

definition demo_env_no_random :: "(unit, nat, string) env" where
  "demo_env_no_random = demo_env\<lparr>rand_source := ([], Some (LibError ''unexpected EOF''))\<rparr>"

definition ok_client :: "string list http_client" where
  "ok_client url n =
     (Inr \<lparr>resp_Status = ''200 OK'', resp_StatusCode = 200, Body = ''<ok/>''\<rparr>, n @ [url])"

definition forbidden_client :: "string list http_client" where
  "forbidden_client url n =
     (Inr \<lparr>resp_Status = ''403 Forbidden'', resp_StatusCode = 403, Body = demo_error_body\<rparr>,
      n @ [url])"

text \<open>
  A client whose transport sends the request, finds the connection reset, sends the request
  once more and gives up: two requests reach the network for one call of \<open>Get\<close>.
\<close>

definition resending_client :: "string list http_client" where
  "resending_client url n =
     (let n = n @ [url];
          n = n @ [url]
      in (Inl (LibError ''connection reset by peer''), n))"

definition demo_region :: Region where
  "demo_region = \<lparr>EC2Endpoint = ''https://ec2.us-east-1.amazonaws.com''\<rparr>"

definition bad_region :: Region where
  "bad_region = \<lparr>EC2Endpoint = '':ec2.us-east-1.amazonaws.com''\<rparr>"

definition state0 :: "string list state" where
  "state0 = \<lparr>gets = [], net = []\<rparr>"

text \<open>
  The URL that \<open>query\<close> requests for a parsed endpoint \<open>u\<close>: the path defaults to
  \<open>/\<close>, the parameters get the version and the timestamp and are signed, and their
  encoding becomes the query string.
\<close>

definition stamped :: "('a, 't, 'r) env \<Rightarrow> params \<Rightarrow> params" where
  "stamped env params =
     params(''Version'' \<mapsto> ''2014-02-01'', ''Timestamp'' \<mapsto> time_UTC_RFC3339 env (timeNow env))"

definition endpoint_path :: "URL \<Rightarrow> string" where
  "endpoint_path u = (if Path u = '''' then ''/'' else Path u)"

definition signed_params :: "('a, 't, 'r) env \<Rightarrow> ('a, 'w) EC2 \<Rightarrow> params \<Rightarrow> URL \<Rightarrow> params" where
  "signed_params env ec2 params u =
     sign env (Auth ec2) ''GET'' (endpoint_path u) (stamped env params) (Host u)"

definition query_url :: "('a, 't, 'r) env \<Rightarrow> ('a, 'w) EC2 \<Rightarrow> params \<Rightarrow> URL \<Rightarrow> string" where
  "query_url env ec2 params u =
     url_String env
       (u\<lparr>Path := endpoint_path u,
          RawQuery := values_Encode env (multimap (signed_params env ec2 params u))\<rparr>)"

section \<open>RunInstances\<close>

record SecurityGroup =
  sg_Id :: string
  sg_Name :: string
  sg_Description :: string
  sg_VpcId :: string

record IamInstanceProfile =
  iam_ARN :: string
  iam_Id :: string
  iam_Name :: string

text \<open>\<open>UserData\<close> is a byte slice that may be nil: \<open>None\<close> is the nil slice.\<close>

record RunInstancesOptions =
  ImageId :: string
  MinCount :: int
  MaxCount :: int
  KeyName :: string
  InstanceType :: string
  SecurityGroups :: "SecurityGroup list"
  KernelId :: string
  RamdiskId :: string
  UserData :: "8 word list option"
  AvailabilityZone :: string
  PlacementGroupName :: string
  Tenancy :: string
  Monitoring :: bool
  SubnetId :: string
  DisableAPITermination :: bool
  ShutdownBehavior :: string
  PrivateIPAddress :: string
  IamInstanceProfile :: IamInstanceProfile
  BlockDevices :: "BlockDeviceMapping list"
  EbsOptimized :: bool
  AssociatePublicIpAddress :: bool

subsection \<open>clientToken\<close>

definition hextable :: string where
  "hextable = ''0123456789abcdef''"

definition hex_EncodeToString :: "8 word list \<Rightarrow> string" where
  "hex_EncodeToString src =
     concat (map (\<lambda>v. [hextable ! unat (drop_bit 4 v), hextable ! unat (v AND 0x0f)]) src)"

text \<open>
  \<open>rand.Read(b)\<close> fills \<open>b\<close> from the random source and reports the source's error; the
  bytes it could not fill stay as they were, and the length of \<open>b\<close> cannot change.
\<close>

definition rand_Read :: "('a, 't, 'r) env \<Rightarrow> 8 word list \<Rightarrow> 8 word list \<times> error option" where
  "rand_Read env b =
     (let (src, err) = rand_source env
      in (take (length b) src @ drop (length src) b, err))"

definition clientToken :: "('a, 't, 'r) env \<Rightarrow> string \<times> error option" where
  "clientToken env =
     (let buf = replicate 32 0;
          (buf, err) = rand_Read env buf
      in if err \<noteq> None then ('''', err) else (hex_EncodeToString buf, None))"

subsection \<open>Security groups as parameters\<close>

text \<open>
  The loops over security groups keep their own counters \<open>i\<close> and \<open>j\<close>, starting at 1
  and advanced only when a key is written. The first loop writes the groups that have an
  id and skips the others; the second writes ids and names under two keys. The keys are
  arguments here because several operations run the same loops under different keys.
\<close>

definition addGroupIds :: "string \<Rightarrow> SecurityGroup list \<Rightarrow> params \<Rightarrow> params" where
  "addGroupIds idKey groups params =
     fst (for_range
            (\<lambda>_ g (params, i).
               if sg_Id g \<noteq> '''' then (params(idKey @ Itoa i \<mapsto> sg_Id g), i + 1)
               else (params, i))
            groups (params, 1))"

definition addGroupIdsOrNames ::
  "string \<Rightarrow> string \<Rightarrow> SecurityGroup list \<Rightarrow> params \<Rightarrow> params" where
  "addGroupIdsOrNames idKey nameKey groups params =
     fst (for_range
            (\<lambda>_ g (params, i, j).
               if sg_Id g \<noteq> '''' then (params(idKey @ Itoa i \<mapsto> sg_Id g), i + 1, j)
               else (params(nameKey @ Itoa j \<mapsto> sg_Name g), i, j + 1))
            groups (params, 1, 1))"

subsection \<open>The parameters of RunInstances\<close>

definition RunInstances_head :: "RunInstancesOptions \<Rightarrow> params" where
  "RunInstances_head options =
     (let params = makeParams ''RunInstances'';
          params = params(''ImageId'' \<mapsto> ImageId options);
          params = params(''InstanceType'' \<mapsto> InstanceType options);
          (min, max) =
            (if MinCount options = 0 \<and> MaxCount options = 0 then (1, 1)
             else if MaxCount options = 0 then (MinCount options, MinCount options)
             else (MinCount options, MaxCount options));
          params = params(''MinCount'' \<mapsto> Itoa min);
          params = params(''MaxCount'' \<mapsto> Itoa max)
      in params)"

definition RunInstances_network :: "RunInstancesOptions \<Rightarrow> params \<Rightarrow> params" where
  "RunInstances_network options params =
     (if SubnetId options \<noteq> '''' \<and> AssociatePublicIpAddress options
      then (let params = params(''NetworkInterface.0.DeviceIndex'' \<mapsto> ''0'');
                params = params(''NetworkInterface.0.AssociatePublicIpAddress'' \<mapsto> ''true'');
                params = params(''NetworkInterface.0.SubnetId'' \<mapsto> SubnetId options)
            in addGroupIds ''NetworkInterface.0.SecurityGroupId.'' (SecurityGroups options) params)
      else (let params = set_if (SubnetId options \<noteq> '''') ''SubnetId'' (SubnetId options) params
            in addGroupIdsOrNames ''SecurityGroupId.'' ''SecurityGroup.''
                 (SecurityGroups options) params))"

definition RunInstances_rest ::
  "('a, 't, 'r) env \<Rightarrow> RunInstancesOptions \<Rightarrow> string \<Rightarrow> params \<Rightarrow> params" where
  "RunInstances_rest env options token params =
     (let params = params(''ClientToken'' \<mapsto> token);
          params = set_if (KeyName options \<noteq> '''') ''KeyName'' (KeyName options) params;
          params = set_if (KernelId options \<noteq> '''') ''KernelId'' (KernelId options) params;
          params = set_if (RamdiskId options \<noteq> '''') ''RamdiskId'' (RamdiskId options) params;
          params = (case UserData options of
                      None \<Rightarrow> params
                    | Some userData \<Rightarrow> params(''UserData'' \<mapsto> b64_EncodeToString env userData));
          params = set_if (AvailabilityZone options \<noteq> '''') ''Placement.AvailabilityZone''
                     (AvailabilityZone options) params;
          params = set_if (PlacementGroupName options \<noteq> '''') ''Placement.GroupName''
                     (PlacementGroupName options) params;
          params = set_if (Tenancy options \<noteq> '''') ''Placement.Tenancy'' (Tenancy options) params;
          params = set_if (Monitoring options) ''Monitoring.Enabled'' ''true'' params;
          params = RunInstances_network options params;
          params = set_if (iam_ARN (IamInstanceProfile options) \<noteq> '''') ''IamInstanceProfile.Arn''
                     (iam_ARN (IamInstanceProfile options)) params;
          params = set_if (iam_Name (IamInstanceProfile options) \<noteq> '''') ''IamInstanceProfile.Name''
                     (iam_Name (IamInstanceProfile options)) params;
          params = set_if (DisableAPITermination options) ''DisableApiTermination'' ''true'' params;
          params = set_if (ShutdownBehavior options \<noteq> '''') ''InstanceInitiatedShutdownBehavior''
                     (ShutdownBehavior options) params;
          params = set_if (PrivateIPAddress options \<noteq> '''') ''PrivateIpAddress''
                     (PrivateIPAddress options) params;
          params = set_if (EbsOptimized options) ''EbsOptimized'' ''true'' params
      in addBlockDeviceParams '''' params (BlockDevices options))"

text \<open>
  \<open>RunInstances\<close> returns the response, or nil with an error. \<open>resp0\<close> is the empty
  response struct \<open>&RunInstancesResp{}\<close> it hands to \<open>query\<close>.
\<close>

definition RunInstances_params ::
  "('a, 't, 'r) env \<Rightarrow> RunInstancesOptions \<Rightarrow> params" where
  "RunInstances_params env options =
     RunInstances_rest env options (fst (clientToken env)) (RunInstances_head options)"

definition RunInstances ::
  "('a, 't, 'r) env \<Rightarrow> ('a, 'w) EC2 \<Rightarrow> RunInstancesOptions \<Rightarrow> 'r \<Rightarrow> 'w state
     \<Rightarrow> 'r option \<times> error option \<times> 'w state" where
  "RunInstances env ec2 options resp0 st =
     (let params = RunInstances_head options;
          (token, err) = clientToken env
      in if err \<noteq> None then (None, err, st)
         else (let params = RunInstances_rest env options token params;
                   out = query env ec2 params resp0 st
               in if out_err out \<noteq> None then (None, out_err out, out_state out)
                  else (Some (out_resp out), None, out_state out)))"

text \<open>
  The ids of the groups that have one, and the names of the groups that have no id, each in
  the order of the list.
\<close>

definition groupIds :: "SecurityGroup list \<Rightarrow> string list" where
  "groupIds groups = map sg_Id (filter (\<lambda>g. sg_Id g \<noteq> '''') groups)"

definition groupNames :: "SecurityGroup list \<Rightarrow> string list" where
  "groupNames groups = map sg_Name (filter (\<lambda>g. sg_Id g = '''') groups)"

text \<open>Options used to run \<open>RunInstances\<close> on concrete inputs.\<close>

definition demo_options :: RunInstancesOptions where
  "demo_options =
     \<lparr>ImageId = ''ami-1'', MinCount = 0, MaxCount = 0, KeyName = ''key'',
      InstanceType = ''m1.small'',
      SecurityGroups =
        [\<lparr>sg_Id = ''sg-1'', sg_Name = '''', sg_Description = '''', sg_VpcId = ''''\<rparr>,
         \<lparr>sg_Id = '''', sg_Name = ''web'', sg_Description = '''', sg_VpcId = ''''\<rparr>,
         \<lparr>sg_Id = ''sg-2'', sg_Name = ''db'', sg_Description = '''', sg_VpcId = ''''\<rparr>],
      KernelId = '''', RamdiskId = '''', UserData = None, AvailabilityZone = '''',
      PlacementGroupName = '''', Tenancy = '''', Monitoring = False, SubnetId = ''subnet-1'',
      DisableAPITermination = False, ShutdownBehavior = '''', PrivateIPAddress = '''',
      IamInstanceProfile = \<lparr>iam_ARN = '''', iam_Id = '''', iam_Name = ''''\<rparr>,
      BlockDevices = [demo_device], EbsOptimized = False, AssociatePublicIpAddress = True\<rparr>"

definition demo_options_classic :: RunInstancesOptions where
  "demo_options_classic = demo_options\<lparr>MinCount := 2, AssociatePublicIpAddress := False\<rparr>"

definition demo_options_range :: RunInstancesOptions where
  "demo_options_range = demo_options\<lparr>MinCount := 2, MaxCount := 3\<rparr>"

section \<open>The tests of the file-info store\<close>

text \<open>
  The tests run against a store that lives outside these sources. A store is modelled by
  what its operations do to a store state \<open>'s\<close>: each takes its arguments and the state
  and yields a \<open>StoreResult\<close> and the new state. In the source an operation returns a
  channel and the test receives the result from it at once (\<open><-store.FileInfo().Save(info)\<close>);
  the test is sequential, so the receive is the call. \<open>FileInfo\<close> has the fields the
  tests set or read. \<open>Data\<close> is an \<open>interface{}\<close>: a \<open>*FileInfo\<close>, which may be a nil
  pointer, a \<open>[]*FileInfo\<close>, nil, or a value of another type; \<open>Err\<close> is nil or an error.
\<close>

record FileInfo =
  fi_Id :: string
  fi_CreatorId :: string
  fi_PostId :: string
  fi_Path :: string
  fi_DeleteAt :: int

datatype data =
    NilData
  | FileInfoPtr "FileInfo option"
  | FileInfoSlice "FileInfo option list"
  | OtherData

record StoreResult =
  Data :: data
  Err :: "string option"

record 's FileInfoStore =
  Save :: "FileInfo \<Rightarrow> 's \<Rightarrow> StoreResult \<times> 's"
  Get :: "string \<Rightarrow> 's \<Rightarrow> StoreResult \<times> 's"
  GetForPost :: "string \<Rightarrow> 's \<Rightarrow> StoreResult \<times> 's"
  DeleteForPost :: "string \<Rightarrow> 's \<Rightarrow> StoreResult \<times> 's"

text \<open>A test passes, stops at \<open>t.Fatal\<close> with a message, or panics.\<close>

datatype test_result = Pass | Fatal string | Panic string

text \<open>
  Modelled from the spec: the helper \<open>Must\<close> of package \<open>store\<close> is not among the
  sources. The tests "assert on returned values"; \<open>Must\<close> is used where a failing store
  call is to abort the test, so it yields the \<open>Data\<close> of a result that has no error and
  panics with the error otherwise.
\<close>

definition Must :: "StoreResult \<Rightarrow> string + data" where
  "Must r = (case Err r of Some e \<Rightarrow> Inl e | None \<Rightarrow> Inr (Data r))"

text \<open>
  The type assertions \<open>x.(*model.FileInfo)\<close> and \<open>x.([]*model.FileInfo)\<close> panic when
  the value has another type; reading a field through a nil pointer panics as well.
\<close>

definition as_FileInfoPtr :: "data \<Rightarrow> string + FileInfo option" where
  "as_FileInfoPtr d =
     (case d of FileInfoPtr p \<Rightarrow> Inr p | _ \<Rightarrow> Inl ''interface conversion'')"

definition as_FileInfoSlice :: "data \<Rightarrow> string + FileInfo option list" where
  "as_FileInfoSlice d =
     (case d of FileInfoSlice l \<Rightarrow> Inr l | _ \<Rightarrow> Inl ''interface conversion'')"

definition as_FileInfo :: "data \<Rightarrow> string + FileInfo" where
  "as_FileInfo d =
     (case as_FileInfoPtr d of
        Inl p \<Rightarrow> Inl p
      | Inr None \<Rightarrow> Inl ''nil pointer dereference''
      | Inr (Some info) \<Rightarrow> Inr info)"

subsection \<open>TestFileInfoSaveGet\<close>

text \<open>
  \<open>Setup()\<close> leaves the store in a state \<open>s0\<close>; the two calls of \<open>model.NewId()\<close> yield
  \<open>newId1\<close> and \<open>newId2\<close>. Fields that a struct literal does not set are zero.
\<close>

definition saveGet_info :: "string \<Rightarrow> FileInfo" where
  "saveGet_info newId1 =
     \<lparr>fi_Id = '''', fi_CreatorId = newId1, fi_PostId = '''', fi_Path = ''file.txt'',
      fi_DeleteAt = 0\<rparr>"

definition saveGet_deleted :: "string \<Rightarrow> FileInfo" where
  "saveGet_deleted newId2 =
     \<lparr>fi_Id = '''', fi_CreatorId = newId2, fi_PostId = '''', fi_Path = ''file.txt'',
      fi_DeleteAt = 123\<rparr>"

definition TestFileInfoSaveGet :: "'s FileInfoStore \<Rightarrow> string \<Rightarrow> string \<Rightarrow> 's \<Rightarrow> test_result" where
  "TestFileInfoSaveGet store newId1 newId2 s0 =
     (let info = saveGet_info newId1;
          (result, s1) = Save store info s0
      in case Err result of
           Some e \<Rightarrow> Fatal e
         | None \<Rightarrow>
            (case as_FileInfo (Data result) of
               Inl p \<Rightarrow> Panic p
             | Inr returned \<Rightarrow>
                if length (fi_Id returned) = 0
                then Fatal ''should've assigned an id to FileInfo''
                else
                  (let info = returned;
                       (result, s2) = Get store (fi_Id info) s1
                   in case Err result of
                        Some e \<Rightarrow> Fatal e
                      | None \<Rightarrow>
                         (case as_FileInfo (Data result) of
                            Inl p \<Rightarrow> Panic p
                          | Inr returned \<Rightarrow>
                             if fi_Id returned \<noteq> fi_Id info
                             then Fatal ''should've returned correct FileInfo''
                             else
                               (let (result, s3) = Save store (saveGet_deleted newId2) s2
                                in case Must result of
                                     Inl p \<Rightarrow> Panic p
                                   | Inr d \<Rightarrow>
                                      (case as_FileInfo d of
                                         Inl p \<Rightarrow> Panic p
                                       | Inr info2 \<Rightarrow>
                                          (let (result, s4) = Get store (fi_Id info2) s3
                                           in if Err result = None
                                              then Fatal ''shouldn't have gotten deleted file''
                                              else Pass)))))))"

subsection \<open>TestFileInfoDeleteForPost\<close>

definition deleteForPost_infos :: "string \<Rightarrow> string \<Rightarrow> string \<Rightarrow> FileInfo list" where
  "deleteForPost_infos userId postId otherPostId =
     [\<lparr>fi_Id = '''', fi_CreatorId = userId, fi_PostId = postId, fi_Path = ''file.txt'',
       fi_DeleteAt = 0\<rparr>,
      \<lparr>fi_Id = '''', fi_CreatorId = userId, fi_PostId = postId, fi_Path = ''file.txt'',
       fi_DeleteAt = 0\<rparr>,
      \<lparr>fi_Id = '''', fi_CreatorId = userId, fi_PostId = postId, fi_Path = ''file.txt'',
       fi_DeleteAt = 123\<rparr>,
      \<lparr>fi_Id = '''', fi_CreatorId = userId, fi_PostId = otherPostId, fi_Path = ''file.txt'',
       fi_DeleteAt = 0\<rparr>]"

text \<open>
  The loop \<open>infos[i] = Must(store.FileInfo().Save(info)).(*model.FileInfo)\<close>: it saves
  the records in order and stops at the first panic. The pointers it stores are not read.
\<close>

fun save_all ::
  "'s FileInfoStore \<Rightarrow> FileInfo list \<Rightarrow> 's \<Rightarrow> string + (FileInfo option list \<times> 's)" where
  "save_all store [] s = Inr ([], s)"
| "save_all store (info # infos) s =
     (let (result, s1) = Save store info s
      in case Must result of
           Inl p \<Rightarrow> Inl p
         | Inr d \<Rightarrow>
            (case as_FileInfoPtr d of
               Inl p \<Rightarrow> Inl p
             | Inr saved \<Rightarrow>
                (case save_all store infos s1 of
                   Inl p \<Rightarrow> Inl p
                 | Inr (rest, s2) \<Rightarrow> Inr (saved # rest, s2))))"

definition TestFileInfoDeleteForPost ::
  "'s FileInfoStore \<Rightarrow> string \<Rightarrow> string \<Rightarrow> string \<Rightarrow> 's \<Rightarrow> test_result" where
  "TestFileInfoDeleteForPost store userId postId otherPostId s0 =
     (case save_all store (deleteForPost_infos userId postId otherPostId) s0 of
        Inl p \<Rightarrow> Panic p
      | Inr (infos, s1) \<Rightarrow>
         (let (result, s2) = DeleteForPost store postId s1
          in case Err result of
               Some e \<Rightarrow> Fatal e
             | None \<Rightarrow>
                (let (result, s3) = GetForPost store postId s2
                 in case Must result of
                      Inl p \<Rightarrow> Panic p
                    | Inr d \<Rightarrow>
                       (case as_FileInfoSlice d of
                          Inl p \<Rightarrow> Panic p
                        | Inr infos \<Rightarrow>
                           if length infos \<noteq> 0
                           then Fatal ''shouldn't have returned any file infos''
                           else Pass))))"

subsection \<open>A store in memory, used to run the tests\<close>

text \<open>
  The state is the number of records saved so far and the records. \<open>Save\<close> assigns the id
  \<open>id-n\<close>; \<open>Get\<close> finds a record by id unless it is deleted; \<open>GetForPost\<close> lists the
  records of a post that are not deleted; \<open>DeleteForPost\<close> marks them deleted.
\<close>

definition mem_Save :: "FileInfo \<Rightarrow> nat \<times> FileInfo list \<Rightarrow> StoreResult \<times> (nat \<times> FileInfo list)" where
  "mem_Save info s =
     (let saved = info\<lparr>fi_Id := ''id-'' @ Itoa (int (fst s) + 1)\<rparr>
      in (\<lparr>Data = FileInfoPtr (Some saved), Err = None\<rparr>, (Suc (fst s), snd s @ [saved])))"

definition mem_Get :: "string \<Rightarrow> nat \<times> FileInfo list \<Rightarrow> StoreResult \<times> (nat \<times> FileInfo list)" where
  "mem_Get fileId s =
     (case filter (\<lambda>r. fi_Id r = fileId \<and> fi_DeleteAt r = 0) (snd s) of
        [] \<Rightarrow> (\<lparr>Data = NilData, Err = Some ''store.sql_file_info.get.app_error''\<rparr>, s)
      | r # _ \<Rightarrow> (\<lparr>Data = FileInfoPtr (Some r), Err = None\<rparr>, s))"

definition mem_GetForPost ::
  "string \<Rightarrow> nat \<times> FileInfo list \<Rightarrow> StoreResult \<times> (nat \<times> FileInfo list)" where
  "mem_GetForPost postId s =
     (\<lparr>Data = FileInfoSlice
                (map Some (filter (\<lambda>r. fi_PostId r = postId \<and> fi_DeleteAt r = 0) (snd s))),
        Err = None\<rparr>, s)"

definition mem_DeleteForPost ::
  "string \<Rightarrow> nat \<times> FileInfo list \<Rightarrow> StoreResult \<times> (nat \<times> FileInfo list)" where
  "mem_DeleteForPost postId s =
     (\<lparr>Data = NilData, Err = None\<rparr>,
      (fst s, map (\<lambda>r. if fi_PostId r = postId then r\<lparr>fi_DeleteAt := 1\<rparr> else r) (snd s)))"

definition mem_store :: "(nat \<times> FileInfo list) FileInfoStore" where
  "mem_store =
     \<lparr>Save = mem_Save, Get = mem_Get, GetForPost = mem_GetForPost,
      DeleteForPost = mem_DeleteForPost\<rparr>"

text \<open>A store whose \<open>Get\<close> also finds deleted records, and one that deletes nothing.\<close>

definition leaky_Get :: "string \<Rightarrow> nat \<times> FileInfo list \<Rightarrow> StoreResult \<times> (nat \<times> FileInfo list)" where
  "leaky_Get fileId s =
     (case filter (\<lambda>r. fi_Id r = fileId) (snd s) of
        [] \<Rightarrow> (\<lparr>Data = NilData, Err = Some ''store.sql_file_info.get.app_error''\<rparr>, s)
      | r # _ \<Rightarrow> (\<lparr>Data = FileInfoPtr (Some r), Err = None\<rparr>, s))"

definition leaky_store :: "(nat \<times> FileInfo list) FileInfoStore" where
  "leaky_store = mem_store\<lparr>Get := leaky_Get\<rparr>"

definition lazy_store :: "(nat \<times> FileInfo list) FileInfoStore" where
  "lazy_store = mem_store\<lparr>DeleteForPost := (\<lambda>postId s. (\<lparr>Data = NilData, Err = None\<rparr>, s))\<rparr>"

subsection \<open>An error body that is cut off\<close>

text \<open>
  The body below ends inside the \<open>RequestID\<close> element. An XML decoder that fills the
  envelope as it reads has stored the one complete \<open>Error\<close> when it meets the end of the
  input and reports the syntax error; the request id is not set.
\<close>

definition demo_truncated_body :: string where
  "demo_truncated_body = ''<Response><Errors><Error><Code>AuthFailure</Code><Message>bad</Message></Error></Errors><RequestID>req-1''"

definition truncating_Decode_errors :: "string \<Rightarrow> xmlErrors \<Rightarrow> xmlErrors \<times> error option" where
  "truncating_Decode_errors body e =
     (if body = demo_truncated_body
      then (\<lparr>xmlErrors_RequestId = '''',
              Errors = [\<lparr>StatusCode = 0, Code = ''AuthFailure'', Message = ''bad'',
                         RequestId = ''''\<rparr>]\<rparr>,
            Some (LibError ''XML syntax error: unexpected EOF''))
      else demo_xml_Decode_errors body e)"

definition demo_env_truncated :: "(unit, nat, string) env" where
  "demo_env_truncated = demo_env\<lparr>xml_Decode_errors := truncating_Decode_errors\<rparr>"

definition truncated_client :: "string list http_client" where
  "truncated_client url n =
     (Inr \<lparr>resp_Status = ''403 Forbidden'', resp_StatusCode = 403, Body = demo_truncated_body\<rparr>,
      n @ [url])"

section \<open>The operations of the client\<close>

text \<open>
  Every exported operation builds its parameters from \<open>makeParams\<close> with the name of its
  action and passes them to \<open>query\<close> once. The definitions below give, for each
  operation, the map it passes. A loop that is written out in the source is a range loop
  here; \<open>fmt.Sprintf("Owner.%d", i+1)\<close> is \<open>"Owner." + strconv.Itoa(i+1)\<close>.
\<close>

record Tag =
  tag_Key :: string
  tag_Value :: string

definition DescribeSpotRequests_params :: "string list \<Rightarrow> Filter option \<Rightarrow> params" where
  "DescribeSpotRequests_params spotrequestIds flt =
     (let params = makeParams ''DescribeSpotInstanceRequests'';
          params = addParamsList params ''SpotInstanceRequestId'' spotrequestIds
      in addParams flt params)"

definition CancelSpotRequests_params :: "string list \<Rightarrow> params" where
  "CancelSpotRequests_params spotrequestIds =
     (let params = makeParams ''CancelSpotInstanceRequests''
      in addParamsList params ''SpotInstanceRequestId'' spotrequestIds)"

definition TerminateInstances_params :: "string list \<Rightarrow> params" where
  "TerminateInstances_params instIds =
     (let params = makeParams ''TerminateInstances''
      in addParamsList params ''InstanceId'' instIds)"

definition DescribeInstances_params :: "string list \<Rightarrow> Filter option \<Rightarrow> params" where
  "DescribeInstances_params instIds flt =
     (let params = makeParams ''DescribeInstances'';
          params = addParamsList params ''InstanceId'' instIds
      in addParams flt params)"

definition CreateKeyPair_params :: "string \<Rightarrow> params" where
  "CreateKeyPair_params keyName =
     (let params = makeParams ''CreateKeyPair''
      in params(''KeyName'' \<mapsto> keyName))"

definition DeleteKeyPair_params :: "string \<Rightarrow> params" where
  "DeleteKeyPair_params name =
     (let params = makeParams ''DeleteKeyPair''
      in params(''KeyName'' \<mapsto> name))"

definition CreateTags_params :: "string list \<Rightarrow> Tag list \<Rightarrow> params" where
  "CreateTags_params resourceIds tags =
     (let params = makeParams ''CreateTags'';
          params = addParamsList params ''ResourceId'' resourceIds
      in for_range
           (\<lambda>j tag params.
              (let params = params(''Tag.'' @ Itoa (int j + 1) @ ''.Key'' \<mapsto> tag_Key tag)
               in params(''Tag.'' @ Itoa (int j + 1) @ ''.Value'' \<mapsto> tag_Value tag)))
           tags params)"

definition StartInstances_params :: "string list \<Rightarrow> params" where
  "StartInstances_params ids =
     (let params = makeParams ''StartInstances''
      in addParamsList params ''InstanceId'' ids)"

definition StopInstances_params :: "string list \<Rightarrow> params" where
  "StopInstances_params ids =
     (let params = makeParams ''StopInstances''
      in addParamsList params ''InstanceId'' ids)"

definition RebootInstances_params :: "string list \<Rightarrow> params" where
  "RebootInstances_params ids =
     (let params = makeParams ''RebootInstances''
      in addParamsList params ''InstanceId'' ids)"

definition DescribeReservedInstances_params :: "string list \<Rightarrow> Filter option \<Rightarrow> params" where
  "DescribeReservedInstances_params instIds flt =
     (let params = makeParams ''DescribeReservedInstances'';
          params = for_range
                     (\<lambda>i id params. params(''ReservedInstancesId.'' @ Itoa (int i + 1) \<mapsto> id))
                     instIds params
      in addParams flt params)"

definition Images_params :: "string list \<Rightarrow> Filter option \<Rightarrow> params" where
  "Images_params ids flt =
     (let params = makeParams ''DescribeImages'';
          params = for_range (\<lambda>i id params. params(''ImageId.'' @ Itoa (int i + 1) \<mapsto> id))
                     ids params
      in addParams flt params)"

definition ImagesByOwners_params :: "string list \<Rightarrow> string list \<Rightarrow> Filter option \<Rightarrow> params" where
  "ImagesByOwners_params ids owners flt =
     (let params = makeParams ''DescribeImages'';
          params = for_range (\<lambda>i id params. params(''ImageId.'' @ Itoa (int i + 1) \<mapsto> id))
                     ids params;
          params = for_range
                     (\<lambda>i owner params. params(''Owner.'' @ Itoa (int i + 1) \<mapsto> owner))
                     owners params
      in addParams flt params)"

definition ImageAttribute_params :: "string \<Rightarrow> string \<Rightarrow> params" where
  "ImageAttribute_params imageId attribute =
     (let params = makeParams ''DescribeImageAttribute'';
          params = params(''ImageId'' \<mapsto> imageId)
      in params(''Attribute'' \<mapsto> attribute))"

definition DeregisterImage_params :: "string \<Rightarrow> params" where
  "DeregisterImage_params imageId =
     (let params = makeParams ''DeregisterImage''
      in params(''ImageId'' \<mapsto> imageId))"

definition CreateSnapshot_params :: "string \<Rightarrow> string \<Rightarrow> params" where
  "CreateSnapshot_params volumeId description =
     (let params = makeParams ''CreateSnapshot'';
          params = params(''VolumeId'' \<mapsto> volumeId)
      in params(''Description'' \<mapsto> description))"

definition DeleteSnapshots_params :: "string list \<Rightarrow> params" where
  "DeleteSnapshots_params ids =
     (let params = makeParams ''DeleteSnapshot''
      in for_range (\<lambda>i id params. params(''SnapshotId.'' @ Itoa (int i + 1) \<mapsto> id))
           ids params)"

definition Snapshots_params :: "string list \<Rightarrow> Filter option \<Rightarrow> params" where
  "Snapshots_params ids flt =
     (let params = makeParams ''DescribeSnapshots'';
          params = for_range (\<lambda>i id params. params(''SnapshotId.'' @ Itoa (int i + 1) \<mapsto> id))
                     ids params
      in addParams flt params)"

definition AttachVolume_params :: "string \<Rightarrow> string \<Rightarrow> string \<Rightarrow> params" where
  "AttachVolume_params volumeId instanceId device =
     (let params = makeParams ''AttachVolume'';
          params = params(''VolumeId'' \<mapsto> volumeId);
          params = params(''InstanceId'' \<mapsto> instanceId)
      in params(''Device'' \<mapsto> device))"

definition DeleteVolume_params :: "string \<Rightarrow> params" where
  "DeleteVolume_params volId =
     (let params = makeParams ''DeleteVolume''
      in params(''VolumeId'' \<mapsto> volId))"

definition DetachVolume_params :: "string \<Rightarrow> params" where
  "DetachVolume_params volId =
     (let params = makeParams ''DetachVolume''
      in params(''VolumeId'' \<mapsto> volId))"

definition Volumes_params :: "string list \<Rightarrow> Filter option \<Rightarrow> params" where
  "Volumes_params volIds flt =
     (let params = makeParams ''DescribeVolumes'';
          params = addParamsList params ''VolumeId'' volIds
      in addParams flt params)"

definition DescribeAddresses_params ::
  "string list \<Rightarrow> string list \<Rightarrow> Filter option \<Rightarrow> params" where
  "DescribeAddresses_params publicIps allocationIds flt =
     (let params = makeParams ''DescribeAddresses'';
          params = addParamsList params ''PublicIp'' publicIps;
          params = addParamsList params ''AllocationId'' allocationIds
      in addParams flt params)"

definition ReleaseAddress_params :: "string \<Rightarrow> string \<Rightarrow> params" where
  "ReleaseAddress_params publicIp allocationId =
     (let params = makeParams ''ReleaseAddress'';
          params = set_if (publicIp \<noteq> '''') ''PublicIp'' publicIp params
      in set_if (allocationId \<noteq> '''') ''AllocationId'' allocationId params)"

definition DisassociateAddress_params :: "string \<Rightarrow> string \<Rightarrow> params" where
  "DisassociateAddress_params publicIp associationId =
     (let params = makeParams ''DisassociateAddress'';
          params = set_if (publicIp \<noteq> '''') ''PublicIp'' publicIp params
      in set_if (associationId \<noteq> '''') ''AssociationId'' associationId params)"

subsection \<open>Security groups\<close>

record UserSecurityGroup =
  usg_Id :: string
  usg_Name :: string
  usg_OwnerId :: string

record IPPerm =
  perm_Protocol :: string
  perm_FromPort :: int
  perm_ToPort :: int
  perm_SourceIPs :: "string list"
  perm_SourceGroups :: "UserSecurityGroup list"

definition CreateSecurityGroup_params :: "SecurityGroup \<Rightarrow> params" where
  "CreateSecurityGroup_params grp =
     (let params = makeParams ''CreateSecurityGroup'';
          params = params(''GroupName'' \<mapsto> sg_Name grp);
          params = params(''GroupDescription'' \<mapsto> sg_Description grp)
      in set_if (sg_VpcId grp \<noteq> '''') ''VpcId'' (sg_VpcId grp) params)"

definition SecurityGroups_params :: "SecurityGroup list \<Rightarrow> Filter option \<Rightarrow> params" where
  "SecurityGroups_params groups flt =
     (let params = makeParams ''DescribeSecurityGroups'';
          params = addGroupIdsOrNames ''GroupId.'' ''GroupName.'' groups params
      in addParams flt params)"

definition DeleteSecurityGroup_params :: "SecurityGroup \<Rightarrow> params" where
  "DeleteSecurityGroup_params grp =
     (let params = makeParams ''DeleteSecurityGroup''
      in if sg_Id grp \<noteq> '''' then params(''GroupId'' \<mapsto> sg_Id grp)
         else params(''GroupName'' \<mapsto> sg_Name grp))"

definition permGroupStep :: "string \<Rightarrow> nat \<Rightarrow> UserSecurityGroup \<Rightarrow> params \<Rightarrow> params" where
  "permGroupStep prefix j g params =
     (let subprefix = prefix @ ''.Groups.'' @ Itoa (int j + 1);
          params = set_if (usg_OwnerId g \<noteq> '''') (subprefix @ ''.UserId'') (usg_OwnerId g) params
      in if usg_Id g \<noteq> '''' then params(subprefix @ ''.GroupId'' \<mapsto> usg_Id g)
         else params(subprefix @ ''.GroupName'' \<mapsto> usg_Name g))"

definition permStep :: "nat \<Rightarrow> IPPerm \<Rightarrow> params \<Rightarrow> params" where
  "permStep i perm params =
     (let prefix = ''IpPermissions.'' @ Itoa (int i + 1);
          params = params(prefix @ ''.IpProtocol'' \<mapsto> perm_Protocol perm);
          params = params(prefix @ ''.FromPort'' \<mapsto> Itoa (perm_FromPort perm));
          params = params(prefix @ ''.ToPort'' \<mapsto> Itoa (perm_ToPort perm));
          params = for_range
                     (\<lambda>j ip params.
                        params(prefix @ ''.IpRanges.'' @ Itoa (int j + 1) @ ''.CidrIp'' \<mapsto> ip))
                     (perm_SourceIPs perm) params
      in for_range (permGroupStep prefix) (perm_SourceGroups perm) params)"

definition authOrRevoke_params :: "string \<Rightarrow> SecurityGroup \<Rightarrow> IPPerm list \<Rightarrow> params" where
  "authOrRevoke_params op grp perms =
     (let params = makeParams op;
          params = (if sg_Id grp \<noteq> '''' then params(''GroupId'' \<mapsto> sg_Id grp)
                    else params(''GroupName'' \<mapsto> sg_Name grp))
      in for_range permStep perms params)"

subsection \<open>Operations that take an options struct\<close>

record RequestSpotInstances =
  rsi_SpotPrice :: string
  rsi_InstanceCount :: int
  rsi_Type :: string
  rsi_ImageId :: string
  rsi_KeyName :: string
  rsi_InstanceType :: string
  rsi_SecurityGroups :: "SecurityGroup list"
  rsi_IamInstanceProfile :: string
  rsi_KernelId :: string
  rsi_RamdiskId :: string
  rsi_UserData :: "8 word list option"
  rsi_AvailZone :: string
  rsi_PlacementGroupName :: string
  rsi_Monitoring :: bool
  rsi_SubnetId :: string
  rsi_AssociatePublicIpAddress :: bool
  rsi_PrivateIPAddress :: string
  rsi_BlockDevices :: "BlockDeviceMapping list"

definition RequestSpotInstances_network :: "string \<Rightarrow> RequestSpotInstances \<Rightarrow> params \<Rightarrow> params" where
  "RequestSpotInstances_network prefix options params =
     (if rsi_SubnetId options \<noteq> '''' \<and> rsi_AssociatePublicIpAddress options
      then (let params = params(prefix @ ''NetworkInterface.0.DeviceIndex'' \<mapsto> ''0'');
                params = params(prefix @ ''NetworkInterface.0.AssociatePublicIpAddress'' \<mapsto> ''true'');
                params = params(prefix @ ''NetworkInterface.0.SubnetId'' \<mapsto> rsi_SubnetId options)
            in addGroupIds (prefix @ ''NetworkInterface.0.SecurityGroupId.'')
                 (rsi_SecurityGroups options) params)
      else (let params = set_if (rsi_SubnetId options \<noteq> '''') (prefix @ ''SubnetId'')
                           (rsi_SubnetId options) params
            in addGroupIdsOrNames (prefix @ ''SecurityGroupId.'') (prefix @ ''SecurityGroup.'')
                 (rsi_SecurityGroups options) params))"

definition RequestSpotInstances_params ::
  "('a, 't, 'r) env \<Rightarrow> RequestSpotInstances \<Rightarrow> params" where
  "RequestSpotInstances_params env options =
     (let params = makeParams ''RequestSpotInstances'';
          prefix = ''LaunchSpecification'' @ ''.'';
          params = params(''SpotPrice'' \<mapsto> rsi_SpotPrice options);
          params = params(prefix @ ''ImageId'' \<mapsto> rsi_ImageId options);
          params = params(prefix @ ''InstanceType'' \<mapsto> rsi_InstanceType options);
          params = set_if (rsi_InstanceCount options \<noteq> 0) ''InstanceCount''
                     (Itoa (rsi_InstanceCount options)) params;
          params = set_if (rsi_KeyName options \<noteq> '''') (prefix @ ''KeyName'')
                     (rsi_KeyName options) params;
          params = set_if (rsi_KernelId options \<noteq> '''') (prefix @ ''KernelId'')
                     (rsi_KernelId options) params;
          params = set_if (rsi_RamdiskId options \<noteq> '''') (prefix @ ''RamdiskId'')
                     (rsi_RamdiskId options) params;
          params = (case rsi_UserData options of
                      None \<Rightarrow> params
                    | Some userData \<Rightarrow>
                        params(prefix @ ''UserData'' \<mapsto> b64_EncodeToString env userData));
          params = set_if (rsi_AvailZone options \<noteq> '''') (prefix @ ''Placement.AvailabilityZone'')
                     (rsi_AvailZone options) params;
          params = set_if (rsi_PlacementGroupName options \<noteq> '''') (prefix @ ''Placement.GroupName'')
                     (rsi_PlacementGroupName options) params;
          params = set_if (rsi_Monitoring options) (prefix @ ''Monitoring.Enabled'') ''true'' params;
          params = RequestSpotInstances_network prefix options params;
          params = set_if (rsi_IamInstanceProfile options \<noteq> '''')
                     (prefix @ ''IamInstanceProfile.Name'') (rsi_IamInstanceProfile options) params;
          params = set_if (rsi_PrivateIPAddress options \<noteq> '''') (prefix @ ''PrivateIpAddress'')
                     (rsi_PrivateIPAddress options) params
      in addBlockDeviceParams prefix params (rsi_BlockDevices options))"

record DescribeInstanceStatusOptions =
  dis_InstanceIds :: "string list"
  dis_IncludeAllInstances :: bool
  dis_MaxResults :: int
  dis_NextToken :: string

definition DescribeInstanceStatus_params ::
  "DescribeInstanceStatusOptions \<Rightarrow> Filter option \<Rightarrow> params" where
  "DescribeInstanceStatus_params options flt =
     (let params = makeParams ''DescribeInstanceStatus'';
          params = (if length (dis_InstanceIds options) > 0
                    then addParamsList params ''InstanceId'' (dis_InstanceIds options)
                    else params);
          params = set_if (dis_IncludeAllInstances options) ''IncludeAllInstances'' ''true'' params;
          params = set_if (dis_MaxResults options \<noteq> 0) ''MaxResults''
                     (Itoa (dis_MaxResults options)) params;
          params = set_if (dis_NextToken options \<noteq> '''') ''NextToken''
                     (dis_NextToken options) params
      in addParams flt params)"

record ImportKeyPairOptions =
  ikp_KeyName :: string
  ikp_PublicKeyMaterial :: string

definition ImportKeyPair_params :: "ImportKeyPairOptions \<Rightarrow> params" where
  "ImportKeyPair_params options =
     (let params = makeParams ''ImportKeyPair'';
          params = params(''KeyName'' \<mapsto> ikp_KeyName options)
      in params(''PublicKeyMaterial'' \<mapsto> ikp_PublicKeyMaterial options))"

record ModifyInstance =
  mi_InstanceType :: string
  mi_BlockDevices :: "BlockDeviceMapping list"
  mi_DisableAPITermination :: bool
  mi_EbsOptimized :: bool
  mi_SecurityGroups :: "SecurityGroup list"
  mi_ShutdownBehavior :: string
  mi_KernelId :: string
  mi_RamdiskId :: string
  mi_SourceDestCheck :: bool
  mi_SriovNetSupport :: bool
  mi_UserData :: "8 word list option"

definition ModifyInstance_params ::
  "('a, 't, 'r) env \<Rightarrow> string \<Rightarrow> ModifyInstance \<Rightarrow> params" where
  "ModifyInstance_params env instId options =
     (let params = makeParams ''ModifyInstanceAttribute'';
          params = params(''InstanceId'' \<mapsto> instId);
          params = addBlockDeviceParams '''' params (mi_BlockDevices options);
          params = set_if (mi_InstanceType options \<noteq> '''') ''InstanceType.Value''
                     (mi_InstanceType options) params;
          params = set_if (mi_DisableAPITermination options) ''DisableApiTermination.Value''
                     ''true'' params;
          params = set_if (mi_EbsOptimized options) ''EbsOptimized'' ''true'' params;
          params = set_if (mi_ShutdownBehavior options \<noteq> '''')
                     ''InstanceInitiatedShutdownBehavior.Value'' (mi_ShutdownBehavior options) params;
          params = set_if (mi_KernelId options \<noteq> '''') ''Kernel.Value'' (mi_KernelId options) params;
          params = set_if (mi_RamdiskId options \<noteq> '''') ''Ramdisk.Value''
                     (mi_RamdiskId options) params;
          params = set_if (mi_SourceDestCheck options) ''SourceDestCheck.Value'' ''true'' params;
          params = set_if (mi_SriovNetSupport options) ''SriovNetSupport.Value'' ''simple'' params;
          params = (case mi_UserData options of
                      None \<Rightarrow> params
                    | Some userData \<Rightarrow> params(''UserData'' \<mapsto> b64_EncodeToString env userData))
      in addGroupIds ''GroupId.'' (mi_SecurityGroups options) params)"

record CreateImage =
  ci_InstanceId :: string
  ci_Name :: string
  ci_Description :: string
  ci_NoReboot :: bool
  ci_BlockDevices :: "BlockDeviceMapping list"

definition CreateImage_params :: "CreateImage \<Rightarrow> params" where
  "CreateImage_params options =
     (let params = makeParams ''CreateImage'';
          params = params(''InstanceId'' \<mapsto> ci_InstanceId options);
          params = params(''Name'' \<mapsto> ci_Name options);
          params = set_if (ci_Description options \<noteq> '''') ''Description''
                     (ci_Description options) params;
          params = set_if (ci_NoReboot options) ''NoReboot'' ''true'' params
      in addBlockDeviceParams '''' params (ci_BlockDevices options))"

text \<open>
  In \<open>ModifyImageAttribute\<close> the loops are guarded by \<open>!= nil\<close>; a loop over a nil
  slice and one over an empty slice both do nothing, so the slices are lists.
\<close>

record ModifyImageAttribute =
  mia_AddUsers :: "string list"
  mia_RemoveUsers :: "string list"
  mia_AddGroups :: "string list"
  mia_RemoveGroups :: "string list"
  mia_ProductCodes :: "string list"
  mia_Description :: string

definition ModifyImageAttribute_params :: "string \<Rightarrow> ModifyImageAttribute \<Rightarrow> params" where
  "ModifyImageAttribute_params imageId options =
     (let params = makeParams ''ModifyImageAttribute'';
          params = params(''ImageId'' \<mapsto> imageId);
          params = set_if (mia_Description options \<noteq> '''') ''Description.Value''
                     (mia_Description options) params;
          params = for_range
                     (\<lambda>i user params.
                        params(''LaunchPermission.Add.'' @ Itoa (int i + 1) @ ''.UserId'' \<mapsto> user))
                     (mia_AddUsers options) params;
          params = for_range
                     (\<lambda>i user params.
                        params(''LaunchPermission.Remove.'' @ Itoa (int i + 1) @ ''.UserId'' \<mapsto> user))
                     (mia_RemoveUsers options) params;
          params = for_range
                     (\<lambda>i grp params.
                        params(''LaunchPermission.Add.'' @ Itoa (int i + 1) @ ''.Group'' \<mapsto> grp))
                     (mia_AddGroups options) params;
          params = for_range
                     (\<lambda>i grp params.
                        params(''LaunchPermission.Remove.'' @ Itoa (int i + 1) @ ''.Group'' \<mapsto> grp))
                     (mia_RemoveGroups options) params
      in addParamsList params ''ProductCode'' (mia_ProductCodes options))"

record RegisterImage =
  ri_ImageLocation :: string
  ri_Name :: string
  ri_Description :: string
  ri_Architecture :: string
  ri_KernelId :: string
  ri_RamdiskId :: string
  ri_RootDeviceName :: string
  ri_VirtType :: string
  ri_BlockDevices :: "BlockDeviceMapping list"

definition RegisterImage_params :: "RegisterImage \<Rightarrow> params" where
  "RegisterImage_params options =
     (let params = makeParams ''RegisterImage'';
          params = params(''Name'' \<mapsto> ri_Name options);
          params = set_if (ri_ImageLocation options \<noteq> '''') ''ImageLocation''
                     (ri_ImageLocation options) params;
          params = set_if (ri_Description options \<noteq> '''') ''Description''
                     (ri_Description options) params;
          params = set_if (ri_Architecture options \<noteq> '''') ''Architecture''
                     (ri_Architecture options) params;
          params = set_if (ri_KernelId options \<noteq> '''') ''KernelId'' (ri_KernelId options) params;
          params = set_if (ri_RamdiskId options \<noteq> '''') ''RamdiskId''
                     (ri_RamdiskId options) params;
          params = set_if (ri_RootDeviceName options \<noteq> '''') ''RootDeviceName''
                     (ri_RootDeviceName options) params;
          params = set_if (ri_VirtType options \<noteq> '''') ''VirtualizationType''
                     (ri_VirtType options) params
      in addBlockDeviceParams '''' params (ri_BlockDevices options))"

record CopyImage =
  cpi_SourceRegion :: string
  cpi_SourceImageId :: string
  cpi_Name :: string
  cpi_Description :: string
  cpi_ClientToken :: string

definition CopyImage_params :: "CopyImage \<Rightarrow> params" where
  "CopyImage_params options =
     (let params = makeParams ''CopyImage'';
          params = set_if (cpi_SourceRegion options \<noteq> '''') ''SourceRegion''
                     (cpi_SourceRegion options) params;
          params = set_if (cpi_SourceImageId options \<noteq> '''') ''SourceImageId''
                     (cpi_SourceImageId options) params;
          params = set_if (cpi_Name options \<noteq> '''') ''Name'' (cpi_Name options) params;
          params = set_if (cpi_Description options \<noteq> '''') ''Description''
                     (cpi_Description options) params
      in set_if (cpi_ClientToken options \<noteq> '''') ''ClientToken'' (cpi_ClientToken options) params)"

record CreateVolume =
  cv_AvailZone :: string
  cv_Size :: int
  cv_SnapshotId :: string
  cv_VolumeType :: string
  cv_IOPS :: int

definition CreateVolume_params :: "CreateVolume \<Rightarrow> params" where
  "CreateVolume_params options =
     (let params = makeParams ''CreateVolume'';
          params = params(''AvailabilityZone'' \<mapsto> cv_AvailZone options);
          params = set_if (cv_Size options > 0) ''Size'' (FormatInt10 (cv_Size options)) params;
          params = set_if (cv_SnapshotId options \<noteq> '''') ''SnapshotId''
                     (cv_SnapshotId options) params;
          params = set_if (cv_VolumeType options \<noteq> '''') ''VolumeType''
                     (cv_VolumeType options) params
      in set_if (cv_IOPS options > 0) ''Iops'' (FormatInt10 (cv_IOPS options)) params)"

record AllocateAddressOptions =
  aa_Domain :: string

definition AllocateAddress_params :: "AllocateAddressOptions \<Rightarrow> params" where
  "AllocateAddress_params options =
     (let params = makeParams ''AllocateAddress''
      in params(''Domain'' \<mapsto> aa_Domain options))"

record AssociateAddressOptions =
  asa_PublicIp :: string
  asa_InstanceId :: string
  asa_AllocationId :: string
  asa_NetworkInterfaceId :: string
  asa_PrivateIpAddress :: string
  asa_AllowReassociation :: bool

definition AssociateAddress_params :: "AssociateAddressOptions \<Rightarrow> params" where
  "AssociateAddress_params options =
     (let params = makeParams ''AssociateAddress'';
          params = params(''InstanceId'' \<mapsto> asa_InstanceId options);
          params = set_if (asa_PublicIp options \<noteq> '''') ''PublicIp'' (asa_PublicIp options) params;
          params = set_if (asa_AllocationId options \<noteq> '''') ''AllocationId''
                     (asa_AllocationId options) params;
          params = set_if (asa_NetworkInterfaceId options \<noteq> '''') ''NetworkInterfaceId''
                     (asa_NetworkInterfaceId options) params;
          params = set_if (asa_PrivateIpAddress options \<noteq> '''') ''PrivateIpAddress''
                     (asa_PrivateIpAddress options) params
      in set_if (asa_AllowReassociation options) ''AllowReassociation'' ''true'' params)"

subsection \<open>One call of an operation\<close>

text \<open>
  A call of the client is one of its exported operations with its arguments. The four
  operations on security group rules share \<open>authOrRevoke\<close>.
\<close>

datatype api_call =
    Op_RunInstances RunInstancesOptions
  | Op_RequestSpotInstances RequestSpotInstances
  | Op_DescribeSpotRequests "string list" "Filter option"
  | Op_CancelSpotRequests "string list"
  | Op_TerminateInstances "string list"
  | Op_DescribeInstances "string list" "Filter option"
  | Op_DescribeInstanceStatus DescribeInstanceStatusOptions "Filter option"
  | Op_CreateKeyPair string
  | Op_DeleteKeyPair string
  | Op_ImportKeyPair ImportKeyPairOptions
  | Op_CreateTags "string list" "Tag list"
  | Op_StartInstances "string list"
  | Op_StopInstances "string list"
  | Op_RebootInstances "string list"
  | Op_ModifyInstance string ModifyInstance
  | Op_DescribeReservedInstances "string list" "Filter option"
  | Op_CreateImage CreateImage
  | Op_Images "string list" "Filter option"
  | Op_ImagesByOwners "string list" "string list" "Filter option"
  | Op_ImageAttribute string string
  | Op_ModifyImageAttribute string ModifyImageAttribute
  | Op_RegisterImage RegisterImage
  | Op_DeregisterImage string
  | Op_CopyImage CopyImage
  | Op_CreateSnapshot string string
  | Op_DeleteSnapshots "string list"
  | Op_Snapshots "string list" "Filter option"
  | Op_AttachVolume string string string
  | Op_CreateVolume CreateVolume
  | Op_DeleteVolume string
  | Op_DetachVolume string
  | Op_Volumes "string list" "Filter option"
  | Op_CreateSecurityGroup SecurityGroup
  | Op_SecurityGroups "SecurityGroup list" "Filter option"
  | Op_DeleteSecurityGroup SecurityGroup
  | Op_AuthorizeSecurityGroup SecurityGroup "IPPerm list"
  | Op_RevokeSecurityGroup SecurityGroup "IPPerm list"
  | Op_AuthorizeSecurityGroupEgress SecurityGroup "IPPerm list"
  | Op_RevokeSecurityGroupEgress SecurityGroup "IPPerm list"
  | Op_DescribeAddresses "string list" "string list" "Filter option"
  | Op_AllocateAddress AllocateAddressOptions
  | Op_ReleaseAddress string string
  | Op_AssociateAddress AssociateAddressOptions
  | Op_DisassociateAddress string string

text \<open>The action each operation names in \<open>makeParams\<close>.\<close>

definition action_name :: "api_call \<Rightarrow> string" where
  "action_name call =
     (case call of
        Op_RunInstances options \<Rightarrow> ''RunInstances''
      | Op_RequestSpotInstances options \<Rightarrow> ''RequestSpotInstances''
      | Op_DescribeSpotRequests ids flt \<Rightarrow> ''DescribeSpotInstanceRequests''
      | Op_CancelSpotRequests ids \<Rightarrow> ''CancelSpotInstanceRequests''
      | Op_TerminateInstances ids \<Rightarrow> ''TerminateInstances''
      | Op_DescribeInstances ids flt \<Rightarrow> ''DescribeInstances''
      | Op_DescribeInstanceStatus options flt \<Rightarrow> ''DescribeInstanceStatus''
      | Op_CreateKeyPair keyName \<Rightarrow> ''CreateKeyPair''
      | Op_DeleteKeyPair name \<Rightarrow> ''DeleteKeyPair''
      | Op_ImportKeyPair options \<Rightarrow> ''ImportKeyPair''
      | Op_CreateTags ids tags \<Rightarrow> ''CreateTags''
      | Op_StartInstances ids \<Rightarrow> ''StartInstances''
      | Op_StopInstances ids \<Rightarrow> ''StopInstances''
      | Op_RebootInstances ids \<Rightarrow> ''RebootInstances''
      | Op_ModifyInstance instId options \<Rightarrow> ''ModifyInstanceAttribute''
      | Op_DescribeReservedInstances ids flt \<Rightarrow> ''DescribeReservedInstances''
      | Op_CreateImage options \<Rightarrow> ''CreateImage''
      | Op_Images ids flt \<Rightarrow> ''DescribeImages''
      | Op_ImagesByOwners ids owners flt \<Rightarrow> ''DescribeImages''
      | Op_ImageAttribute imageId attribute \<Rightarrow> ''DescribeImageAttribute''
      | Op_ModifyImageAttribute imageId options \<Rightarrow> ''ModifyImageAttribute''
      | Op_RegisterImage options \<Rightarrow> ''RegisterImage''
      | Op_DeregisterImage imageId \<Rightarrow> ''DeregisterImage''
      | Op_CopyImage options \<Rightarrow> ''CopyImage''
      | Op_CreateSnapshot volumeId description \<Rightarrow> ''CreateSnapshot''
      | Op_DeleteSnapshots ids \<Rightarrow> ''DeleteSnapshot''
      | Op_Snapshots ids flt \<Rightarrow> ''DescribeSnapshots''
      | Op_AttachVolume volumeId instanceId device \<Rightarrow> ''AttachVolume''
      | Op_CreateVolume options \<Rightarrow> ''CreateVolume''
      | Op_DeleteVolume volId \<Rightarrow> ''DeleteVolume''
      | Op_DetachVolume volId \<Rightarrow> ''DetachVolume''
      | Op_Volumes ids flt \<Rightarrow> ''DescribeVolumes''
      | Op_CreateSecurityGroup grp \<Rightarrow> ''CreateSecurityGroup''
      | Op_SecurityGroups groups flt \<Rightarrow> ''DescribeSecurityGroups''
      | Op_DeleteSecurityGroup grp \<Rightarrow> ''DeleteSecurityGroup''
      | Op_AuthorizeSecurityGroup grp perms \<Rightarrow> ''AuthorizeSecurityGroupIngress''
      | Op_RevokeSecurityGroup grp perms \<Rightarrow> ''RevokeSecurityGroupIngress''
      | Op_AuthorizeSecurityGroupEgress grp perms \<Rightarrow> ''AuthorizeSecurityGroupEgress''
      | Op_RevokeSecurityGroupEgress grp perms \<Rightarrow> ''RevokeSecurityGroupEgress''
      | Op_DescribeAddresses publicIps allocationIds flt \<Rightarrow> ''DescribeAddresses''
      | Op_AllocateAddress options \<Rightarrow> ''AllocateAddress''
      | Op_ReleaseAddress publicIp allocationId \<Rightarrow> ''ReleaseAddress''
      | Op_AssociateAddress options \<Rightarrow> ''AssociateAddress''
      | Op_DisassociateAddress publicIp associationId \<Rightarrow> ''DisassociateAddress'')"

text \<open>The map the operation passes to \<open>query\<close>.\<close>

definition call_params :: "('a, 't, 'r) env \<Rightarrow> api_call \<Rightarrow> params" where
  "call_params env call =
     (case call of
        Op_RunInstances options \<Rightarrow> RunInstances_params env options
      | Op_RequestSpotInstances options \<Rightarrow> RequestSpotInstances_params env options
      | Op_DescribeSpotRequests ids flt \<Rightarrow> DescribeSpotRequests_params ids flt
      | Op_CancelSpotRequests ids \<Rightarrow> CancelSpotRequests_params ids
      | Op_TerminateInstances ids \<Rightarrow> TerminateInstances_params ids
      | Op_DescribeInstances ids flt \<Rightarrow> DescribeInstances_params ids flt
      | Op_DescribeInstanceStatus options flt \<Rightarrow> DescribeInstanceStatus_params options flt
      | Op_CreateKeyPair keyName \<Rightarrow> CreateKeyPair_params keyName
      | Op_DeleteKeyPair name \<Rightarrow> DeleteKeyPair_params name
      | Op_ImportKeyPair options \<Rightarrow> ImportKeyPair_params options
      | Op_CreateTags ids tags \<Rightarrow> CreateTags_params ids tags
      | Op_StartInstances ids \<Rightarrow> StartInstances_params ids
      | Op_StopInstances ids \<Rightarrow> StopInstances_params ids
      | Op_RebootInstances ids \<Rightarrow> RebootInstances_params ids
      | Op_ModifyInstance instId options \<Rightarrow> ModifyInstance_params env instId options
      | Op_DescribeReservedInstances ids flt \<Rightarrow> DescribeReservedInstances_params ids flt
      | Op_CreateImage options \<Rightarrow> CreateImage_params options
      | Op_Images ids flt \<Rightarrow> Images_params ids flt
      | Op_ImagesByOwners ids owners flt \<Rightarrow> ImagesByOwners_params ids owners flt
      | Op_ImageAttribute imageId attribute \<Rightarrow> ImageAttribute_params imageId attribute
      | Op_ModifyImageAttribute imageId options \<Rightarrow> ModifyImageAttribute_params imageId options
      | Op_RegisterImage options \<Rightarrow> RegisterImage_params options
      | Op_DeregisterImage imageId \<Rightarrow> DeregisterImage_params imageId
      | Op_CopyImage options \<Rightarrow> CopyImage_params options
      | Op_CreateSnapshot volumeId description \<Rightarrow> CreateSnapshot_params volumeId description
      | Op_DeleteSnapshots ids \<Rightarrow> DeleteSnapshots_params ids
      | Op_Snapshots ids flt \<Rightarrow> Snapshots_params ids flt
      | Op_AttachVolume volumeId instanceId device \<Rightarrow>
          AttachVolume_params volumeId instanceId device
      | Op_CreateVolume options \<Rightarrow> CreateVolume_params options
      | Op_DeleteVolume volId \<Rightarrow> DeleteVolume_params volId
      | Op_DetachVolume volId \<Rightarrow> DetachVolume_params volId
      | Op_Volumes ids flt \<Rightarrow> Volumes_params ids flt
      | Op_CreateSecurityGroup grp \<Rightarrow> CreateSecurityGroup_params grp
      | Op_SecurityGroups groups flt \<Rightarrow> SecurityGroups_params groups flt
      | Op_DeleteSecurityGroup grp \<Rightarrow> DeleteSecurityGroup_params grp
      | Op_AuthorizeSecurityGroup grp perms \<Rightarrow>
          authOrRevoke_params ''AuthorizeSecurityGroupIngress'' grp perms
      | Op_RevokeSecurityGroup grp perms \<Rightarrow>
          authOrRevoke_params ''RevokeSecurityGroupIngress'' grp perms
      | Op_AuthorizeSecurityGroupEgress grp perms \<Rightarrow>
          authOrRevoke_params ''AuthorizeSecurityGroupEgress'' grp perms
      | Op_RevokeSecurityGroupEgress grp perms \<Rightarrow>
          authOrRevoke_params ''RevokeSecurityGroupEgress'' grp perms
      | Op_DescribeAddresses publicIps allocationIds flt \<Rightarrow>
          DescribeAddresses_params publicIps allocationIds flt
      | Op_AllocateAddress options \<Rightarrow> AllocateAddress_params options
      | Op_ReleaseAddress publicIp allocationId \<Rightarrow> ReleaseAddress_params publicIp allocationId
      | Op_AssociateAddress options \<Rightarrow> AssociateAddress_params options
      | Op_DisassociateAddress publicIp associationId \<Rightarrow>
          DisassociateAddress_params publicIp associationId)"

text \<open>
  The requests of one call. Every operation passes its map to \<open>query\<close> once;
  \<open>RunInstances\<close> returns before that when it gets no client token. What an operation
  then makes of the decoded response (most return nil with an error, \<open>CreateKeyPair\<close>
  trims the fingerprint, \<open>DescribeInstances\<close> copies owner ids, \<open>CreateSecurityGroup\<close>
  sets the name) involves no request and is left out.
\<close>

definition token_failed :: "('a, 't, 'r) env \<Rightarrow> api_call \<Rightarrow> bool" where
  "token_failed env call =
     (case call of Op_RunInstances options \<Rightarrow> snd (clientToken env) \<noteq> None | _ \<Rightarrow> False)"

definition run ::
  "('a, 't, 'r) env \<Rightarrow> ('a, 'w) EC2 \<Rightarrow> api_call \<Rightarrow> 'r \<Rightarrow> 'w state \<Rightarrow> ('r, 'w) outcome" where
  "run env ec2 call resp0 st =
     (if token_failed env call
      then \<lparr>out_err = snd (clientToken env),
             out_params = (case call of Op_RunInstances options \<Rightarrow> RunInstances_head options
                           | _ \<Rightarrow> call_params env call),
             out_resp = resp0, out_state = st\<rparr>
      else query env ec2 (call_params env call) resp0 st)"

section \<open>Decimal formatting is injective and made of digits\<close>

lemma digit_table:
  "\<forall>d \<in> set [0..<10]. digit_val (digit_char d) = d \<and> is_digit (digit_char d)"
  by code_simp

lemma digit_val_digit_char: "d < 10 \<Longrightarrow> digit_val (digit_char d) = d"
  using digit_table by simp

lemma is_digit_digit_char: "d < 10 \<Longrightarrow> is_digit (digit_char d)"
  using digit_table by simp

lemma parse_digits_snoc: "parse_digits (s @ [c]) = 10 * parse_digits s + digit_val c"
  by (simp add: parse_digits_def)

lemma parse_formatBits: "parse_digits (formatBits n) = n"
proof (induction n rule: formatBits.induct)
  case (1 n)
  show ?case
  proof (cases "n < 10")
    case True
    then show ?thesis
      by (simp add: formatBits.simps [of n] parse_digits_def digit_val_digit_char)
  next
    case False
    then have "parse_digits (formatBits (n div 10)) = n div 10"
      using "1.IH" by simp
    with False show ?thesis
      by (simp add: formatBits.simps [of n] parse_digits_snoc digit_val_digit_char)
  qed
qed

lemma formatBits_inj: "formatBits a = formatBits b \<Longrightarrow> a = b"
  by (metis parse_formatBits)

lemma formatBits_digits: "\<forall>c \<in> set (formatBits n). is_digit c"
proof (induction n rule: formatBits.induct)
  case (1 n)
  show ?case
  proof (cases "n < 10")
    case True
    then show ?thesis
      by (simp add: formatBits.simps [of n] is_digit_digit_char)
  next
    case False
    then have "\<forall>c \<in> set (formatBits (n div 10)). is_digit c"
      using "1.IH" by simp
    with False show ?thesis
      by (simp add: formatBits.simps [of n] is_digit_digit_char)
  qed
qed

lemma Itoa_index: "Itoa (int i + 1) = formatBits (Suc i)"
  by (simp add: Itoa_def nat_add_distrib)

lemma Itoa_index_inj: "Itoa (int i + 1) = Itoa (int j + 1) \<Longrightarrow> i = j"
  using formatBits_inj [of "Suc i" "Suc j"] by (simp add: Itoa_index)

lemma dot_not_digit: "\<not> is_digit CHR ''.''"
  by (simp add: is_digit_def)

lemma Itoa_index_no_dot: "CHR ''.'' \<notin> set (Itoa (int i + 1))"
proof
  assume "CHR ''.'' \<in> set (Itoa (int i + 1))"
  then have "CHR ''.'' \<in> set (formatBits (Suc i))"
    by (simp only: Itoa_index)
  then have "is_digit CHR ''.''"
    using formatBits_digits [of "Suc i"] by (rule_tac bspec)
  then show False
    using dot_not_digit by simp
qed

lemma split_at_first:
  assumes "c \<notin> set a" and "c \<notin> set b" and "a @ c # s = b @ c # t"
  shows "a = b \<and> s = t"
  using assms
proof (induction a arbitrary: b)
  case Nil
  then show ?case by (cases b) auto
next
  case (Cons x a)
  then show ?case by (cases b) auto
qed

lemma indexed_key_eq:
  "Itoa (int i + 1) @ CHR ''.'' # s = Itoa (int j + 1) @ CHR ''.'' # t \<longleftrightarrow> i = j \<and> s = t"
proof
  assume eq: "Itoa (int i + 1) @ CHR ''.'' # s = Itoa (int j + 1) @ CHR ''.'' # t"
  have "Itoa (int i + 1) = Itoa (int j + 1) \<and> s = t"
    by (rule split_at_first [OF Itoa_index_no_dot Itoa_index_no_dot eq])
  then show "i = j \<and> s = t"
    using Itoa_index_inj by simp
next
  assume "i = j \<and> s = t"
  then show "Itoa (int i + 1) @ CHR ''.'' # s = Itoa (int j + 1) @ CHR ''.'' # t"
    by simp
qed

section \<open>Facts about the range loop\<close>

lemma for_range_from_snoc:
  "for_range_from i body (xs @ [x]) s = body (i + length xs) x (for_range_from i body xs s)"
  by (induction xs arbitrary: i s) simp_all

lemma for_range_snoc:
  "for_range body (xs @ [x]) s = body (length xs) x (for_range body xs s)"
  by (simp add: for_range_def for_range_from_snoc)

lemma for_range_Nil: "for_range body [] s = s"
  by (simp add: for_range_def)

text \<open>A key that no iteration writes keeps its value.\<close>

lemma for_range_frame:
  fixes body :: "nat \<Rightarrow> 'a \<Rightarrow> params \<Rightarrow> params"
  assumes "\<And>i s. i < length xs \<Longrightarrow> body i (xs ! i) s key = s key"
  shows "for_range body xs p key = p key"
  using assms
proof (induction xs rule: rev_induct)
  case Nil
  then show ?case by (simp add: for_range_Nil)
next
  case (snoc x xs)
  have "for_range body xs p key = p key"
  proof (rule snoc.IH)
    fix i s
    assume "i < length xs"
    then show "body i (xs ! i) s key = s key"
      using snoc.prems [of i s] by (simp add: nth_append)
  qed
  moreover have "body (length xs) x (for_range body xs p) key = for_range body xs p key"
    using snoc.prems [of "length xs" "for_range body xs p"] by simp
  ultimately show ?case by (simp add: for_range_snoc)
qed

text \<open>
  A key that only iteration \<open>j\<close> can write ends as that iteration leaves it, whenever
  what the iteration does to the key depends on the key's old value alone.
\<close>

lemma for_range_at:
  fixes body :: "nat \<Rightarrow> 'a \<Rightarrow> params \<Rightarrow> params"
  assumes "j < length xs"
    and "\<And>i s. i < length xs \<Longrightarrow> i \<noteq> j \<Longrightarrow> body i (xs ! i) s key = s key"
    and "\<And>s. body j (xs ! j) s key = f (s key)"
  shows "for_range body xs p key = f (p key)"
  using assms
proof (induction xs rule: rev_induct)
  case Nil
  then show ?case by simp
next
  case (snoc x xs)
  show ?case
  proof (cases "j = length xs")
    case True
    have "for_range body xs p key = p key"
    proof (rule for_range_frame)
      fix i s
      assume "i < length xs"
      then show "body i (xs ! i) s key = s key"
        using snoc.prems(2) [of i s] True by (simp add: nth_append)
    qed
    then show ?thesis
      using snoc.prems(3) [of "for_range body xs p"] True by (simp add: for_range_snoc)
  next
    case False
    then have j: "j < length xs"
      using snoc.prems(1) by simp
    have "for_range body xs p key = f (p key)"
    proof (rule snoc.IH [OF j])
      fix i s
      assume "i < length xs" and "i \<noteq> j"
      then show "body i (xs ! i) s key = s key"
        using snoc.prems(2) [of i s] by (simp add: nth_append)
    next
      fix s
      show "body j (xs ! j) s key = f (s key)"
        using snoc.prems(3) [of s] j by (simp add: nth_append)
    qed
    moreover have "body (length xs) x (for_range body xs p) key = for_range body xs p key"
      using snoc.prems(2) [of "length xs" "for_range body xs p"] False by simp
    ultimately show ?thesis by (simp add: for_range_snoc)
  qed
qed

section \<open>Indexed lists and block devices\<close>

lemma Itoa_index_eq [simp]: "(Itoa (int i + 1) = Itoa (int j + 1)) = (i = j)"
  using Itoa_index_inj by auto

lemma addParamsList_at:
  assumes "i < length ids"
  shows "addParamsList params label ids (label @ ''.'' @ Itoa (int i + 1)) = Some (ids ! i)"
  unfolding addParamsList_def
  by (rule for_range_at [where j = i and f = "\<lambda>_. Some (ids ! i)"]) (simp_all add: assms)

lemma addParamsList_frame:
  assumes "\<And>i. i < length ids \<Longrightarrow> key \<noteq> label @ ''.'' @ Itoa (int i + 1)"
  shows "addParamsList params label ids key = params key"
  unfolding addParamsList_def
proof (rule for_range_frame)
  fix i and s :: params
  assume "i < length ids"
  then have "key \<noteq> label @ ''.'' @ Itoa (int i + 1)"
    by (rule assms)
  then show "(s(label @ ''.'' @ Itoa (int i + 1) \<mapsto> ids ! i)) key = s key"
    by simp
qed

lemma blockDeviceStep_other:
  "i \<noteq> j \<Longrightarrow> blockDeviceStep prename i k s (blockDevicePrefix prename j @ sub)
     = s (blockDevicePrefix prename j @ sub)"
  by (simp add: blockDeviceStep_def blockDevicePrefix_def Let_def set_if_def indexed_key_eq)

lemma blockDeviceStep_frame:
  "\<forall>sub \<in> set blockDeviceSubKeys. key \<noteq> blockDevicePrefix prename i @ sub \<Longrightarrow>
     blockDeviceStep prename i k s key = s key"
  by (simp add: blockDeviceStep_def blockDevicePrefix_def Let_def set_if_def
      blockDeviceSubKeys_def)

lemma blockDeviceStep_own:
  fixes k :: BlockDeviceMapping
  defines "pre \<equiv> blockDevicePrefix"
  shows "blockDeviceStep prename i k s (pre prename i @ ''DeviceName'') =
           (if DeviceName k \<noteq> '''' then Some (DeviceName k)
            else s (pre prename i @ ''DeviceName''))"
    and "blockDeviceStep prename i k s (pre prename i @ ''VirtualName'') =
           (if VirtualName k \<noteq> '''' then Some (VirtualName k)
            else s (pre prename i @ ''VirtualName''))"
    and "blockDeviceStep prename i k s (pre prename i @ ''Ebs.SnapshotId'') =
           (if SnapshotId k \<noteq> '''' then Some (SnapshotId k)
            else s (pre prename i @ ''Ebs.SnapshotId''))"
    and "blockDeviceStep prename i k s (pre prename i @ ''Ebs.VolumeType'') =
           (if VolumeType k \<noteq> '''' then Some (VolumeType k)
            else s (pre prename i @ ''Ebs.VolumeType''))"
    and "blockDeviceStep prename i k s (pre prename i @ ''Ebs.Iops'') =
           (if IOPS k \<noteq> 0 then Some (FormatInt10 (IOPS k))
            else s (pre prename i @ ''Ebs.Iops''))"
    and "blockDeviceStep prename i k s (pre prename i @ ''Ebs.VolumeSize'') =
           (if VolumeSize k \<noteq> 0 then Some (FormatInt10 (VolumeSize k))
            else s (pre prename i @ ''Ebs.VolumeSize''))"
    and "blockDeviceStep prename i k s (pre prename i @ ''Ebs.DeleteOnTermination'') =
           (if DeleteOnTermination k then Some ''true''
            else s (pre prename i @ ''Ebs.DeleteOnTermination''))"
    and "blockDeviceStep prename i k s (pre prename i @ ''NoDevice'') =
           (if NoDevice k then Some ''true'' else s (pre prename i @ ''NoDevice''))"
  unfolding pre_def
  by (simp_all add: blockDeviceStep_def blockDevicePrefix_def Let_def set_if_def indexed_key_eq)

lemma addBlockDeviceParams_at:
  assumes "i < length bds"
    and "\<And>s. blockDeviceStep prename i (bds ! i) s (blockDevicePrefix prename i @ sub)
           = f (s (blockDevicePrefix prename i @ sub))"
  shows "addBlockDeviceParams prename params bds (blockDevicePrefix prename i @ sub)
           = f (params (blockDevicePrefix prename i @ sub))"
  unfolding addBlockDeviceParams_def
  by (rule for_range_at [where j = i]) (simp_all add: assms blockDeviceStep_other)

lemma addBlockDeviceParams_frame:
  assumes "\<And>i. i < length bds \<Longrightarrow>
             \<forall>sub \<in> set blockDeviceSubKeys. key \<noteq> blockDevicePrefix prename i @ sub"
  shows "addBlockDeviceParams prename params bds key = params key"
  unfolding addBlockDeviceParams_def
  by (rule for_range_frame) (simp add: assms blockDeviceStep_frame)

text \<open>
  Claim C4. \<open>addParamsList\<close> stores \<open>ids[i]\<close> under \<open>label.(i+1)\<close> for every index of
  the list and leaves every other key as it was. \<open>addBlockDeviceParams\<close> writes the
  \<open>i\<close>-th device under \<open>prename + "BlockDeviceMapping.(i+1)."\<close>: each of its eight
  sub-keys is stored when the field it comes from is non-zero (a non-empty string, a
  non-zero number, a true flag) and is left as it was otherwise; keys that are no
  sub-key of any device of the list are left as they were.
\<close>

theorem addParamsList_addBlockDeviceParams_spec:
  "(\<forall>i < length ids.
      addParamsList params label ids (label @ ''.'' @ Itoa (int i + 1)) = Some (ids ! i))
   \<and> (\<forall>key. (\<forall>i < length ids. key \<noteq> label @ ''.'' @ Itoa (int i + 1)) \<longrightarrow>
         addParamsList params label ids key = params key)
   \<and> (\<forall>i < length bds.
        (let prefix = prename @ ''BlockDeviceMapping.'' @ Itoa (int i + 1) @ ''.'';
             k = bds ! i;
             r = addBlockDeviceParams prename params bds
         in r (prefix @ ''DeviceName'') =
              (if DeviceName k \<noteq> '''' then Some (DeviceName k)
               else params (prefix @ ''DeviceName''))
          \<and> r (prefix @ ''VirtualName'') =
              (if VirtualName k \<noteq> '''' then Some (VirtualName k)
               else params (prefix @ ''VirtualName''))
          \<and> r (prefix @ ''Ebs.SnapshotId'') =
              (if SnapshotId k \<noteq> '''' then Some (SnapshotId k)
               else params (prefix @ ''Ebs.SnapshotId''))
          \<and> r (prefix @ ''Ebs.VolumeType'') =
              (if VolumeType k \<noteq> '''' then Some (VolumeType k)
               else params (prefix @ ''Ebs.VolumeType''))
          \<and> r (prefix @ ''Ebs.Iops'') =
              (if IOPS k \<noteq> 0 then Some (FormatInt10 (IOPS k))
               else params (prefix @ ''Ebs.Iops''))
          \<and> r (prefix @ ''Ebs.VolumeSize'') =
              (if VolumeSize k \<noteq> 0 then Some (FormatInt10 (VolumeSize k))
               else params (prefix @ ''Ebs.VolumeSize''))
          \<and> r (prefix @ ''Ebs.DeleteOnTermination'') =
              (if DeleteOnTermination k then Some ''true''
               else params (prefix @ ''Ebs.DeleteOnTermination''))
          \<and> r (prefix @ ''NoDevice'') =
              (if NoDevice k then Some ''true'' else params (prefix @ ''NoDevice''))))
   \<and> (\<forall>key. (\<forall>i < length bds. \<forall>sub \<in> set blockDeviceSubKeys.
                 key \<noteq> prename @ ''BlockDeviceMapping.'' @ Itoa (int i + 1) @ ''.'' @ sub) \<longrightarrow>
         addBlockDeviceParams prename params bds key = params key)"
proof (intro conjI allI impI)
  fix i assume "i < length ids"
  then show "addParamsList params label ids (label @ ''.'' @ Itoa (int i + 1)) = Some (ids ! i)"
    by (rule addParamsList_at)
next
  fix key
  assume "\<forall>i < length ids. key \<noteq> label @ ''.'' @ Itoa (int i + 1)"
  then show "addParamsList params label ids key = params key"
    by (intro addParamsList_frame) simp
next
  fix i assume i: "i < length bds"
  have pre: "prename @ ''BlockDeviceMapping.'' @ Itoa (int i + 1) @ ''.''
               = blockDevicePrefix prename i"
    by (simp add: blockDevicePrefix_def)
  show "let prefix = prename @ ''BlockDeviceMapping.'' @ Itoa (int i + 1) @ ''.'';
            k = bds ! i;
            r = addBlockDeviceParams prename params bds
        in r (prefix @ ''DeviceName'') =
             (if DeviceName k \<noteq> '''' then Some (DeviceName k)
              else params (prefix @ ''DeviceName''))
         \<and> r (prefix @ ''VirtualName'') =
             (if VirtualName k \<noteq> '''' then Some (VirtualName k)
              else params (prefix @ ''VirtualName''))
         \<and> r (prefix @ ''Ebs.SnapshotId'') =
             (if SnapshotId k \<noteq> '''' then Some (SnapshotId k)
              else params (prefix @ ''Ebs.SnapshotId''))
         \<and> r (prefix @ ''Ebs.VolumeType'') =
             (if VolumeType k \<noteq> '''' then Some (VolumeType k)
              else params (prefix @ ''Ebs.VolumeType''))
         \<and> r (prefix @ ''Ebs.Iops'') =
             (if IOPS k \<noteq> 0 then Some (FormatInt10 (IOPS k))
              else params (prefix @ ''Ebs.Iops''))
         \<and> r (prefix @ ''Ebs.VolumeSize'') =
             (if VolumeSize k \<noteq> 0 then Some (FormatInt10 (VolumeSize k))
              else params (prefix @ ''Ebs.VolumeSize''))
         \<and> r (prefix @ ''Ebs.DeleteOnTermination'') =
             (if DeleteOnTermination k then Some ''true''
              else params (prefix @ ''Ebs.DeleteOnTermination''))
         \<and> r (prefix @ ''NoDevice'') =
             (if NoDevice k then Some ''true'' else params (prefix @ ''NoDevice''))"
    unfolding Let_def pre
    by (intro conjI addBlockDeviceParams_at [OF i] blockDeviceStep_own)
next
  fix key
  assume a: "\<forall>i < length bds. \<forall>sub \<in> set blockDeviceSubKeys.
               key \<noteq> prename @ ''BlockDeviceMapping.'' @ Itoa (int i + 1) @ ''.'' @ sub"
  show "addBlockDeviceParams prename params bds key = params key"
  proof (rule addBlockDeviceParams_frame)
    fix i assume "i < length bds"
    with a show "\<forall>sub \<in> set blockDeviceSubKeys. key \<noteq> blockDevicePrefix prename i @ sub"
      by (simp add: blockDevicePrefix_def)
  qed
qed

lemma Itoa_small: "Itoa 1 = ''1''" "Itoa 2 = ''2''" "Itoa 3 = ''3''" "Itoa 8 = ''8''"
  by (simp_all add: Itoa_def formatBits.simps digit_char_def)

theorem addParamsList_addBlockDeviceParams_witness:
  "addParamsList (makeParams ''TerminateInstances'') ''InstanceId'' [''i-1'', ''i-2'']
      ''InstanceId.2'' = Some ''i-2''
   \<and> addParamsList (makeParams ''TerminateInstances'') ''InstanceId'' [''i-1'', ''i-2'']
      ''Action'' = Some ''TerminateInstances''
   \<and> addBlockDeviceParams '''' (makeParams ''RunInstances'') [demo_device]
      ''BlockDeviceMapping.1.DeviceName'' = Some ''/dev/sda1''
   \<and> addBlockDeviceParams '''' (makeParams ''RunInstances'') [demo_device]
      ''BlockDeviceMapping.1.VirtualName'' = None
   \<and> addBlockDeviceParams '''' (makeParams ''RunInstances'') [demo_device]
      ''BlockDeviceMapping.1.Ebs.VolumeSize'' = Some ''8''
   \<and> addBlockDeviceParams '''' (makeParams ''RunInstances'') [demo_device]
      ''Action'' = Some ''RunInstances''"
proof -
  note t = addParamsList_addBlockDeviceParams_spec
    [where ids = "[''i-1'', ''i-2'']" and params = "makeParams ''TerminateInstances''"
       and label = "''InstanceId''"]
  note u = addParamsList_addBlockDeviceParams_spec
    [where bds = "[demo_device]" and prename = "''''" and params = "makeParams ''RunInstances''"]
  have a: "addParamsList (makeParams ''TerminateInstances'') ''InstanceId'' [''i-1'', ''i-2'']
      ''InstanceId.2'' = Some ''i-2''"
    using t [THEN conjunct1, rule_format, of 1] by (simp add: Itoa_small)
  have b: "addParamsList (makeParams ''TerminateInstances'') ''InstanceId'' [''i-1'', ''i-2'']
      ''Action'' = Some ''TerminateInstances''"
    using t [THEN conjunct2, THEN conjunct1, rule_format, of "''Action''"]
    by (simp add: makeParams_def)
  have c: "addBlockDeviceParams '''' (makeParams ''RunInstances'') [demo_device]
      ''BlockDeviceMapping.1.DeviceName'' = Some ''/dev/sda1''
   \<and> addBlockDeviceParams '''' (makeParams ''RunInstances'') [demo_device]
      ''BlockDeviceMapping.1.VirtualName'' = None
   \<and> addBlockDeviceParams '''' (makeParams ''RunInstances'') [demo_device]
      ''BlockDeviceMapping.1.Ebs.VolumeSize'' = Some ''8''"
    using u [THEN conjunct2, THEN conjunct2, THEN conjunct1, rule_format, of 0]
    by (simp add: Let_def Itoa_small demo_device_def makeParams_def FormatInt10_def Itoa_def
        formatBits.simps digit_char_def)
  have d: "addBlockDeviceParams '''' (makeParams ''RunInstances'') [demo_device]
      ''Action'' = Some ''RunInstances''"
    using u [THEN conjunct2, THEN conjunct2, THEN conjunct2, rule_format, of "''Action''"]
    by (simp add: makeParams_def blockDeviceSubKeys_def)
  from a b c d show ?thesis by simp
qed

section \<open>Filters\<close>

lemma filterStep_other:
  "i \<noteq> i' \<Longrightarrow> filterStep fm i' k s (''Filter.'' @ Itoa (int i + 1) @ CHR ''.'' # rest)
     = s (''Filter.'' @ Itoa (int i + 1) @ CHR ''.'' # rest)"
  unfolding filterStep_def Let_def
  by (subst for_range_frame) (simp_all add: indexed_key_eq)

lemma filterStep_name: "filterStep fm i k s (filterNameKey i) = Some k"
  unfolding filterStep_def Let_def filterNameKey_def
  by (subst for_range_frame) (simp_all add: indexed_key_eq)

lemma filterStep_value:
  assumes "j < length (slice_at fm k)"
  shows "filterStep fm i k s (filterValueKey i j) = Some (slice_at fm k ! j)"
  unfolding filterStep_def Let_def filterValueKey_def
  by (rule for_range_at [where j = j and f = "\<lambda>_. Some (slice_at fm k ! j)"])
     (simp_all add: assms)

lemma filterStep_frame:
  assumes "key \<noteq> filterNameKey i"
    and "\<And>j. j < length (slice_at fm k) \<Longrightarrow> key \<noteq> filterValueKey i j"
  shows "filterStep fm i k s key = s key"
proof -
  have "for_range (\<lambda>j v params. params(''Filter.'' @ Itoa (int i + 1) @ ''.Value.'' @ Itoa (int j + 1) \<mapsto> v))
          (slice_at fm k) (s(''Filter.'' @ Itoa (int i + 1) @ ''.Name'' \<mapsto> k)) key
        = (s(''Filter.'' @ Itoa (int i + 1) @ ''.Name'' \<mapsto> k)) key"
  proof (rule for_range_frame)
    fix j and t :: params
    assume "j < length (slice_at fm k)"
    then have "key \<noteq> filterValueKey i j" by (rule assms(2))
    then show "(t(''Filter.'' @ Itoa (int i + 1) @ ''.Value.'' @ Itoa (int j + 1) \<mapsto> slice_at fm k ! j)) key = t key"
      by (simp add: filterValueKey_def)
  qed
  with assms(1) show ?thesis
    by (simp add: filterStep_def Let_def filterNameKey_def)
qed

lemma addParams_name:
  assumes "i < length (filterNames f)"
  shows "addParams (Some f) params (filterNameKey i) = Some (filterNames f ! i)"
proof -
  have "for_range (filterStep (Filter_m f)) (filterNames f) params (filterNameKey i)
          = (\<lambda>_. Some (filterNames f ! i)) (params (filterNameKey i))"
  proof (rule for_range_at [OF assms])
    fix i' and s :: params
    assume "i' < length (filterNames f)" and "i' \<noteq> i"
    then show "filterStep (Filter_m f) i' (filterNames f ! i') s (filterNameKey i) = s (filterNameKey i)"
      using filterStep_other [of i i' "Filter_m f" "filterNames f ! i'" s "''Name''"]
      by (simp add: filterNameKey_def)
  next
    fix s :: params
    show "filterStep (Filter_m f) i (filterNames f ! i) s (filterNameKey i) = Some (filterNames f ! i)"
      by (rule filterStep_name)
  qed
  then show ?thesis
    by (simp add: addParams_def filterNames_def)
qed

lemma addParams_value:
  assumes "i < length (filterNames f)"
    and "j < length (slice_at (Filter_m f) (filterNames f ! i))"
  shows "addParams (Some f) params (filterValueKey i j)
           = Some (slice_at (Filter_m f) (filterNames f ! i) ! j)"
proof -
  have "for_range (filterStep (Filter_m f)) (filterNames f) params (filterValueKey i j)
          = (\<lambda>_. Some (slice_at (Filter_m f) (filterNames f ! i) ! j)) (params (filterValueKey i j))"
  proof (rule for_range_at [OF assms(1)])
    fix i' and s :: params
    assume "i' < length (filterNames f)" and "i' \<noteq> i"
    then show "filterStep (Filter_m f) i' (filterNames f ! i') s (filterValueKey i j) = s (filterValueKey i j)"
      using filterStep_other [of i i' "Filter_m f" "filterNames f ! i'" s "''Value.'' @ Itoa (int j + 1)"]
      by (simp add: filterValueKey_def)
  next
    fix s :: params
    show "filterStep (Filter_m f) i (filterNames f ! i) s (filterValueKey i j)
            = Some (slice_at (Filter_m f) (filterNames f ! i) ! j)"
      by (rule filterStep_value [OF assms(2)])
  qed
  then show ?thesis
    by (simp add: addParams_def filterNames_def)
qed

lemma addParams_frame:
  assumes "\<And>i. i < length (filterNames f) \<Longrightarrow> key \<noteq> filterNameKey i"
    and "\<And>i j. i < length (filterNames f) \<Longrightarrow> j < length (slice_at (Filter_m f) (filterNames f ! i))
           \<Longrightarrow> key \<noteq> filterValueKey i j"
  shows "addParams (Some f) params key = params key"
proof -
  have "for_range (filterStep (Filter_m f)) (filterNames f) params key = params key"
  proof (rule for_range_frame)
    fix i and s :: params
    assume i: "i < length (filterNames f)"
    show "filterStep (Filter_m f) i (filterNames f ! i) s key = s key"
      by (rule filterStep_frame) (simp_all add: assms i)
  qed
  then show ?thesis
    by (simp add: addParams_def filterNames_def)
qed


lemma NewFilter_distinct: "distinct (map fst (Filter_m NewFilter))"
  by (simp add: NewFilter_def)

lemma Add_distinct:
  "distinct (map fst (Filter_m f)) \<Longrightarrow> distinct (map fst (Filter_m (Add f name value)))"
  by (simp add: Add_def distinct_update)

lemma slice_at_cong: "map_of a = map_of b \<Longrightarrow> slice_at a = slice_at b"
  by (simp add: slice_at_def fun_eq_iff)

lemma filterStep_cong:
  assumes "map_of a = map_of b"
  shows "filterStep a = filterStep b"
proof -
  have "slice_at a = slice_at b"
    using assms by (rule slice_at_cong)
  then show ?thesis
    by (intro ext) (simp only: filterStep_def)
qed

lemma sort_distinct_keys:
  assumes "distinct xs"
  shows "sort xs = sorted_list_of_set (set xs)"
  using assms by (simp add: sorted_list_of_set_sort_remdups distinct_remdups_id)

lemma sort_keys_cong:
  assumes "distinct (map fst a)" and "distinct (map fst b)" and "map_of a = map_of b"
  shows "sort (map fst a) = sort (map fst b)"
proof -
  have "dom (map_of a) = dom (map_of b)"
    using assms(3) by simp
  then have "set (map fst a) = set (map fst b)"
    by (simp add: dom_map_of_conv_image_fst)
  then show ?thesis
    using assms(1,2) by (simp only: sort_distinct_keys)
qed

lemma addParams_contents:
  assumes "distinct (map fst (Filter_m f))" and "distinct (map fst (Filter_m g))"
    and "map_of (Filter_m g) = map_of (Filter_m f)"
  shows "addParams (Some g) params = addParams (Some f) params"
  using sort_keys_cong [OF assms(2) assms(1) assms(3)] filterStep_cong [OF assms(3)]
  by (simp add: addParams_def)

lemma map_of_Add:
  "map_of (Filter_m (Add f name value))
     = (map_of (Filter_m f))(name \<mapsto> slice_at (Filter_m f) name @ value)"
  by (simp add: Add_def update_conv')

lemma Add_commute_contents:
  assumes "n1 \<noteq> n2"
  shows "map_of (Filter_m (Add (Add f n1 v1) n2 v2)) = map_of (Filter_m (Add (Add f n2 v2) n1 v1))"
  using assms by (auto simp: map_of_Add slice_at_def fun_eq_iff)

lemma filterNames_sorted: "sorted (filterNames f)" "set (filterNames f) = fst ` set (Filter_m f)"
  by (simp_all add: filterNames_def)

lemma filterNames_distinct: "distinct (map fst (Filter_m f)) \<Longrightarrow> distinct (filterNames f)"
  by (simp add: filterNames_def)


text \<open>
  Claim C3. For a non-nil filter, \<open>addParams\<close> emits the filter's names in ascending
  lexicographic order with consecutive indices from 1: \<open>Filter.i.Name\<close> is the \<open>i\<close>-th
  name and \<open>Filter.i.Value.j\<close> the \<open>j\<close>-th value of that name, and no other key is
  written. For a nil filter the map is unchanged. The emitted parameters depend only on
  the contents of the filter: two filters holding the same values under the same names
  emit the same parameters, so the order of \<open>Add\<close> calls for different names does not
  matter. The hypothesis says that the filter's map has one entry per key, as every Go
  map has.
\<close>

theorem Filter_addParams_spec:
  assumes "distinct (map fst (Filter_m f))"
  shows "(let names = filterNames f; r = addParams (Some f) params
          in names = sorted_list_of_set (fst ` set (Filter_m f))
           \<and> sorted names \<and> distinct names
           \<and> (\<forall>i < length names. r (filterNameKey i) = Some (names ! i))
           \<and> (\<forall>i < length names. \<forall>j < length (slice_at (Filter_m f) (names ! i)).
                 r (filterValueKey i j) = Some (slice_at (Filter_m f) (names ! i) ! j))
           \<and> (\<forall>key. (\<forall>i < length names. key \<noteq> filterNameKey i
                        \<and> (\<forall>j < length (slice_at (Filter_m f) (names ! i)).
                              key \<noteq> filterValueKey i j))
                  \<longrightarrow> r key = params key))
       \<and> addParams None params = params
       \<and> (\<forall>g. distinct (map fst (Filter_m g)) \<and> map_of (Filter_m g) = map_of (Filter_m f)
              \<longrightarrow> addParams (Some g) params = addParams (Some f) params)
       \<and> (\<forall>n1 v1 n2 v2. n1 \<noteq> n2 \<longrightarrow>
              addParams (Some (Add (Add f n1 v1) n2 v2)) params
                = addParams (Some (Add (Add f n2 v2) n1 v1)) params)"
proof -
  have names: "filterNames f = sorted_list_of_set (fst ` set (Filter_m f))"
    using sort_distinct_keys [OF assms] by (simp add: filterNames_def)
  have frame: "\<forall>key. (\<forall>i < length (filterNames f). key \<noteq> filterNameKey i
                        \<and> (\<forall>j < length (slice_at (Filter_m f) (filterNames f ! i)).
                              key \<noteq> filterValueKey i j))
                  \<longrightarrow> addParams (Some f) params key = params key"
    by (intro allI impI addParams_frame) simp_all
  have nil: "addParams None params = params"
    by (simp add: addParams_def)
  have contents: "\<forall>g. distinct (map fst (Filter_m g)) \<and> map_of (Filter_m g) = map_of (Filter_m f)
              \<longrightarrow> addParams (Some g) params = addParams (Some f) params"
    using addParams_contents [OF assms] by blast
  have swap: "\<forall>n1 v1 n2 v2. n1 \<noteq> n2 \<longrightarrow>
              addParams (Some (Add (Add f n1 v1) n2 v2)) params
                = addParams (Some (Add (Add f n2 v2) n1 v1)) params"
  proof (intro allI impI)
    fix n1 v1 n2 v2 assume ne: "(n1::string) \<noteq> n2"
    show "addParams (Some (Add (Add f n1 v1) n2 v2)) params
                = addParams (Some (Add (Add f n2 v2) n1 v1)) params"
      by (rule addParams_contents)
         (simp_all add: Add_distinct assms Add_commute_contents [OF ne])
  qed
  show ?thesis
    unfolding Let_def
    using names filterNames_sorted(1) [of f] filterNames_distinct [OF assms]
      addParams_name [of _ f params] addParams_value [of _ f _ params] frame nil contents swap
    by (intro conjI allI impI) simp_all
qed

theorem Filter_addParams_witness:
  "distinct (map fst (Filter_m demo_filter))
   \<and> filterNames demo_filter = [''architecture'', ''launch-index'']
   \<and> addParams (Some demo_filter) (makeParams ''DescribeInstances'') ''Filter.1.Name''
        = Some ''architecture''
   \<and> addParams (Some demo_filter) (makeParams ''DescribeInstances'') ''Filter.1.Value.2''
        = Some ''x86_64''
   \<and> addParams (Some demo_filter) (makeParams ''DescribeInstances'') ''Filter.2.Name''
        = Some ''launch-index''
   \<and> addParams (Some demo_filter) (makeParams ''DescribeInstances'') ''Action''
        = Some ''DescribeInstances''
   \<and> addParams (Some demo_filter_swapped) (makeParams ''DescribeInstances'')
        = addParams (Some demo_filter) (makeParams ''DescribeInstances'')"
proof -
  have d: "distinct (map fst (Filter_m demo_filter))"
    by (simp add: demo_filter_def Add_def NewFilter_def slice_at_def)
  have m: "Filter_m demo_filter
             = [(''launch-index'', [''0'']), (''architecture'', [''i386'', ''x86_64''])]"
    by (simp add: demo_filter_def Add_def NewFilter_def slice_at_def)
  have n: "filterNames demo_filter = [''architecture'', ''launch-index'']"
    by (simp add: filterNames_def m)
  note t = Filter_addParams_spec [OF d, of "makeParams ''DescribeInstances''", unfolded Let_def]
  have a: "addParams (Some demo_filter) (makeParams ''DescribeInstances'') ''Filter.1.Name''
        = Some ''architecture''"
    using t [THEN conjunct1, THEN conjunct2, THEN conjunct2, THEN conjunct2, THEN conjunct1,
        rule_format, of 0]
    by (simp add: n filterNameKey_def Itoa_small)
  have b: "addParams (Some demo_filter) (makeParams ''DescribeInstances'') ''Filter.2.Name''
        = Some ''launch-index''"
    using t [THEN conjunct1, THEN conjunct2, THEN conjunct2, THEN conjunct2, THEN conjunct1,
        rule_format, of 1]
    by (simp add: n filterNameKey_def Itoa_small)
  have c: "addParams (Some demo_filter) (makeParams ''DescribeInstances'') ''Filter.1.Value.2''
        = Some ''x86_64''"
    using t [THEN conjunct1, THEN conjunct2, THEN conjunct2, THEN conjunct2, THEN conjunct2,
        THEN conjunct1, rule_format, of 0 1]
    by (simp add: n m filterValueKey_def Itoa_small slice_at_def)
  have e: "addParams (Some demo_filter_swapped) (makeParams ''DescribeInstances'')
        = addParams (Some demo_filter) (makeParams ''DescribeInstances'')"
    using t [THEN conjunct2, THEN conjunct2, THEN conjunct1, rule_format, of demo_filter_swapped]
    by (simp add: m demo_filter_swapped_def Add_def NewFilter_def slice_at_def fun_eq_iff)
  have f: "addParams (Some demo_filter) (makeParams ''DescribeInstances'') ''Action''
        = Some ''DescribeInstances''"
    using t [THEN conjunct1, THEN conjunct2, THEN conjunct2, THEN conjunct2, THEN conjunct2,
        THEN conjunct2, rule_format, of "''Action''"]
    by (simp add: filterNameKey_def filterValueKey_def makeParams_def)
  from d n a b c e f show ?thesis by simp
qed


section \<open>Request dispatching: query and buildError\<close>

lemma query_unparsed:
  assumes "url_Parse env (EC2Endpoint (Region ec2)) = Inl e"
  shows "query env ec2 params resp st
           = \<lparr>out_err = Some e, out_params = stamped env params, out_resp = resp, out_state = st\<rparr>"
  using assms by (simp add: query_def stamped_def)

lemma endpoint_fix:
  "(if Path u = '''' then u\<lparr>Path := ''/''\<rparr> else u) = u\<lparr>Path := endpoint_path u\<rparr>"
  by (simp add: endpoint_path_def)

lemma query_parsed:
  assumes "url_Parse env (EC2Endpoint (Region ec2)) = Inr u"
  shows "query env ec2 params resp st =
     (let signed = signed_params env ec2 params u;
          (r, st) = http_Get (httpClient ec2) (query_url env ec2 params u) st
      in case r of
           Inl err \<Rightarrow>
             \<lparr>out_err = Some err, out_params = signed, out_resp = resp, out_state = st\<rparr>
         | Inr r \<Rightarrow>
             if resp_StatusCode r \<noteq> 200
             then \<lparr>out_err = Some (buildError env r), out_params = signed,
                    out_resp = resp, out_state = st\<rparr>
             else (let (resp, err) = xml_Decode env (Body r) resp
                   in \<lparr>out_err = err, out_params = signed, out_resp = resp,
                        out_state = st\<rparr>))"
  using assms
  by (simp add: query_def Let_def endpoint_fix signed_params_def stamped_def query_url_def
      split: prod.split sum.split)

lemma http_Get_state:
  "snd (http_Get client url st) = st\<lparr>gets := gets st @ [url], net := snd (client url (net st))\<rparr>"
  "fst (http_Get client url st) = fst (client url (net st))"
  by (simp_all add: http_Get_def split_beta)


lemma buildError_fields:
  "buildError env r =
     (let envelope = fst (xml_Decode_errors env (Body r) zero_xmlErrors);
          first = (if Errors envelope = [] then zero_Error else hd (Errors envelope))
      in EC2Error \<lparr>StatusCode = resp_StatusCode r, Code = Code first,
           Message = (if Message first = '''' then resp_Status r else Message first),
           RequestId = xmlErrors_RequestId envelope\<rparr>)"
  by (cases "Errors (fst (xml_Decode_errors env (Body r) zero_xmlErrors))")
     (simp_all add: buildError_def Let_def zero_Error_def)

text \<open>
  Claim C1, amended. \<open>query\<close> first stores \<open>Version = 2014-02-01\<close> and the timestamp,
  the current time in UTC formatted as RFC 3339, in the map. If the region's endpoint does
  not parse as a URL it returns the parser's error there: nothing is signed and no request
  is made. Otherwise it signs the parameters, calls \<open>Get\<close> once on the endpoint with the
  encoding of the signed parameters, each under one value, as the query string; if \<open>Get\<close>
  fails it returns that error; if the status is 200 it decodes the body into the response
  struct and returns what the decoder returns; for any other status it returns the error
  built from the response and leaves the response struct alone.
\<close>

theorem query_steps:
  "(let out = query env ec2 params resp st
    in case url_Parse env (EC2Endpoint (Region ec2)) of
         Inl e \<Rightarrow>
           out = \<lparr>out_err = Some e, out_params = stamped env params, out_resp = resp,
                   out_state = st\<rparr>
       | Inr u \<Rightarrow>
           (let signed = signed_params env ec2 params u;
                url = query_url env ec2 params u;
                got = httpClient ec2 url (net st)
            in out_params out = signed
             \<and> out_state out = \<lparr>gets = gets st @ [url], net = snd got\<rparr>
             \<and> (case fst got of
                   Inl e \<Rightarrow> out_err out = Some e \<and> out_resp out = resp
                 | Inr r \<Rightarrow>
                     if resp_StatusCode r = 200
                     then out_resp out = fst (xml_Decode env (Body r) resp)
                        \<and> out_err out = snd (xml_Decode env (Body r) resp)
                     else out_err out = Some (buildError env r) \<and> out_resp out = resp)))
   \<and> stamped env params ''Version'' = Some ''2014-02-01''
   \<and> stamped env params ''Timestamp'' = Some (time_UTC_RFC3339 env (timeNow env))
   \<and> (\<forall>k. k \<noteq> ''Version'' \<and> k \<noteq> ''Timestamp'' \<longrightarrow> stamped env params k = params k)
   \<and> (\<forall>p k. multimap p k = map_option (\<lambda>v. [v]) (p k))"
proof -
  have a: "case url_Parse env (EC2Endpoint (Region ec2)) of
         Inl e \<Rightarrow>
           query env ec2 params resp st
             = \<lparr>out_err = Some e, out_params = stamped env params, out_resp = resp,
                   out_state = st\<rparr>
       | Inr u \<Rightarrow>
           (let signed = signed_params env ec2 params u;
                url = query_url env ec2 params u;
                got = httpClient ec2 url (net st)
            in out_params (query env ec2 params resp st) = signed
             \<and> out_state (query env ec2 params resp st) = \<lparr>gets = gets st @ [url], net = snd got\<rparr>
             \<and> (case fst got of
                   Inl e \<Rightarrow> out_err (query env ec2 params resp st) = Some e
                           \<and> out_resp (query env ec2 params resp st) = resp
                 | Inr r \<Rightarrow>
                     if resp_StatusCode r = 200
                     then out_resp (query env ec2 params resp st) = fst (xml_Decode env (Body r) resp)
                        \<and> out_err (query env ec2 params resp st) = snd (xml_Decode env (Body r) resp)
                     else out_err (query env ec2 params resp st) = Some (buildError env r)
                        \<and> out_resp (query env ec2 params resp st) = resp))"
  proof (cases "url_Parse env (EC2Endpoint (Region ec2))")
    case (Inl e)
    then show ?thesis by (simp add: query_unparsed)
  next
    case (Inr u)
    show ?thesis
      by (simp add: Inr query_parsed [OF Inr] Let_def http_Get_def split_beta
          split: sum.split)
  qed
  have b: "\<forall>p k. multimap p k = map_option (\<lambda>v. [v]) (p k)"
    by (simp add: multimap_def split: option.split)
  show ?thesis
    using a b by (simp add: Let_def stamped_def)
qed

theorem query_steps_counterexample:
  "out_err (query demo_env (NewWithClient () bad_region ok_client)
              (makeParams ''DescribeInstances'') ''zero'' state0)
     = Some (LibError ''missing protocol scheme'')
   \<and> gets (out_state (query demo_env (NewWithClient () bad_region ok_client)
              (makeParams ''DescribeInstances'') ''zero'' state0)) = []
   \<and> net (out_state (query demo_env (NewWithClient () bad_region ok_client)
              (makeParams ''DescribeInstances'') ''zero'' state0)) = []
   \<and> out_params (query demo_env (NewWithClient () bad_region ok_client)
              (makeParams ''DescribeInstances'') ''zero'' state0) ''Signature'' = None"
  by (simp add: query_def demo_env_def NewWithClient_def bad_region_def demo_url_Parse_def
      state0_def makeParams_def)

theorem query_steps_witness:
  "out_err (query demo_env (NewWithClient () demo_region ok_client)
              (makeParams ''DescribeInstances'') ''zero'' state0) = None
   \<and> out_resp (query demo_env (NewWithClient () demo_region ok_client)
              (makeParams ''DescribeInstances'') ''zero'' state0) = ''<ok/>''
   \<and> out_state (query demo_env (NewWithClient () demo_region ok_client)
              (makeParams ''DescribeInstances'') ''zero'' state0)
       = \<lparr>gets = [''https://ec2.us-east-1.amazonaws.com/?Action=DescribeInstances''],
          net = [''https://ec2.us-east-1.amazonaws.com/?Action=DescribeInstances'']\<rparr>
   \<and> out_params (query demo_env (NewWithClient () demo_region ok_client)
              (makeParams ''DescribeInstances'') ''zero'' state0) ''Signature''
       = Some ''GET/ec2.us-east-1.amazonaws.com''"
  using query_steps [of demo_env "NewWithClient () demo_region ok_client"
      "makeParams ''DescribeInstances''" "''zero''" state0]
  by (simp add: Let_def demo_env_def NewWithClient_def demo_region_def demo_url_Parse_def
      state0_def makeParams_def signed_params_def query_url_def stamped_def endpoint_path_def
      demo_sign_def demo_url_String_def demo_Encode_def multimap_def ok_client_def
      demo_xml_Decode_def)

text \<open>
  Claim C2, amended. When \<open>Get\<close> returns a response whose status is not 200, \<open>query\<close> returns a
  non-nil \<open>*Error\<close>: its code and message are those of the first error of the envelope
  the decoder filled (of the zero value when the list is empty, whatever the decoder
  reported: its error is dropped), its request id is the envelope's, its status code is
  the HTTP status code, and an empty message is replaced by the HTTP status text; the
  response struct is returned as it was given.
\<close>

theorem query_error_response:
  assumes "url_Parse env (EC2Endpoint (Region ec2)) = Inr u"
    and "fst (httpClient ec2 (query_url env ec2 params u) (net st)) = Inr r"
    and "resp_StatusCode r \<noteq> 200"
  shows "(let out = query env ec2 params resp st;
              envelope = fst (xml_Decode_errors env (Body r) zero_xmlErrors);
              first = (if Errors envelope = [] then zero_Error else hd (Errors envelope))
          in out_err out =
               Some (EC2Error \<lparr>StatusCode = resp_StatusCode r, Code = Code first,
                 Message = (if Message first = '''' then resp_Status r else Message first),
                 RequestId = xmlErrors_RequestId envelope\<rparr>)
           \<and> out_resp out = resp
           \<and> (Errors envelope = [] \<longrightarrow>
                out_err out =
                  Some (EC2Error \<lparr>StatusCode = resp_StatusCode r, Code = '''',
                    Message = resp_Status r, RequestId = xmlErrors_RequestId envelope\<rparr>)))"
proof -
  have "out_err (query env ec2 params resp st) = Some (buildError env r)
        \<and> out_resp (query env ec2 params resp st) = resp"
    using assms(2,3)
    by (simp add: query_parsed [OF assms(1)] Let_def http_Get_def split_beta split: sum.split)
  then show ?thesis
    by (simp add: buildError_fields Let_def zero_Error_def)
qed

theorem query_error_response_witness:
  "out_err (query demo_env (NewWithClient () demo_region forbidden_client)
              (makeParams ''DescribeInstances'') ''zero'' state0)
     = Some (EC2Error \<lparr>StatusCode = 403, Code = ''AuthFailure'', Message = ''403 Forbidden'',
               RequestId = ''req-1''\<rparr>)
   \<and> out_resp (query demo_env (NewWithClient () demo_region forbidden_client)
              (makeParams ''DescribeInstances'') ''zero'' state0) = ''zero''"
proof -
  have p: "url_Parse demo_env (EC2Endpoint (Region (NewWithClient () demo_region forbidden_client)))
             = Inr \<lparr>Scheme = ''https'', Host = ''ec2.us-east-1.amazonaws.com'', Path = '''',
                    RawQuery = ''''\<rparr>"
    by (simp add: demo_env_def NewWithClient_def demo_region_def demo_url_Parse_def)
  have g: "fst (httpClient (NewWithClient () demo_region forbidden_client) url n)
             = Inr \<lparr>resp_Status = ''403 Forbidden'', resp_StatusCode = 403, Body = demo_error_body\<rparr>"
    for url n
    by (simp add: NewWithClient_def forbidden_client_def)
  have s: "resp_StatusCode \<lparr>resp_Status = ''403 Forbidden'', resp_StatusCode = 403,
             Body = demo_error_body\<rparr> \<noteq> 200"
    by simp
  show ?thesis
    using query_error_response [OF p g s, where params = "makeParams ''DescribeInstances''"
        and st = state0 and resp = "''zero''"]
    by (simp add: Let_def demo_env_def demo_xml_Decode_errors_def)
qed


section \<open>The loops over security groups\<close>

lemma addGroupIds_from:
  fixes key :: string
  defines "body \<equiv> (\<lambda>(_::nat) g (params :: params, i :: int).
             if sg_Id g \<noteq> '''' then (params(key @ Itoa i \<mapsto> sg_Id g), i + 1) else (params, i))"
    and "store \<equiv> (\<lambda>(i::nat) (id::string) (params::params). params(key @ Itoa (int i + 1) \<mapsto> id))"
  shows "fst (for_range_from n body gs (p, int c + 1)) = for_range_from c store (groupIds gs) p"
proof (induction gs arbitrary: n p c)
  case Nil
  then show ?case by (simp add: groupIds_def)
next
  case (Cons g gs)
  show ?case
  proof (cases "sg_Id g = ''''")
    case True
    have "body n g (p, int c + 1) = (p, int c + 1)"
      using True by (simp add: body_def)
    moreover have "groupIds (g # gs) = groupIds gs"
      using True by (simp add: groupIds_def)
    ultimately show ?thesis
      using Cons.IH [of "Suc n" p c] by (simp only: for_range_from.simps)
  next
    case False
    have "body n g (p, int c + 1) = (store c (sg_Id g) p, int (Suc c) + 1)"
      using False by (simp add: body_def store_def)
    moreover have "groupIds (g # gs) = sg_Id g # groupIds gs"
      using False by (simp add: groupIds_def)
    ultimately show ?thesis
      using Cons.IH [of "Suc n" "store c (sg_Id g) p" "Suc c"]
      by (simp only: for_range_from.simps)
  qed
qed

lemma addGroupIds_eq:
  "addGroupIds (label @ ''.'') gs p = addParamsList p label (groupIds gs)"
  using addGroupIds_from [of 0 "label @ ''.''" gs p 0]
  by (simp add: addGroupIds_def addParamsList_def for_range_def)

lemma store_commute:
  fixes key :: string
  defines "store \<equiv> (\<lambda>(i::nat) (id::string) (params::params). params(key @ Itoa (int i + 1) \<mapsto> id))"
  assumes "\<And>i. k \<noteq> key @ Itoa (int i + 1)"
  shows "for_range_from c store ids (p(k \<mapsto> v)) = (for_range_from c store ids p)(k \<mapsto> v)"
proof (induction ids arbitrary: c p)
  case Nil
  then show ?case by simp
next
  case (Cons x ids)
  have "store c x (p(k \<mapsto> v)) = (store c x p)(k \<mapsto> v)"
    using assms(2) [of c] by (simp add: store_def fun_upd_twist)
  then show ?case
    using Cons.IH [of "Suc c" "store c x p"] by (simp only: for_range_from.simps)
qed

lemma addGroupIdsOrNames_from:
  fixes idKey nameKey :: string
  defines "body \<equiv> (\<lambda>(_::nat) g (params :: params, i :: int, j :: int).
             if sg_Id g \<noteq> '''' then (params(idKey @ Itoa i \<mapsto> sg_Id g), i + 1, j)
             else (params(nameKey @ Itoa j \<mapsto> sg_Name g), i, j + 1))"
    and "storeId \<equiv> (\<lambda>(i::nat) (id::string) (params::params). params(idKey @ Itoa (int i + 1) \<mapsto> id))"
    and "storeName \<equiv> (\<lambda>(i::nat) (id::string) (params::params). params(nameKey @ Itoa (int i + 1) \<mapsto> id))"
  assumes "\<And>i j. nameKey @ Itoa (int j + 1) \<noteq> idKey @ Itoa (int i + 1)"
  shows "fst (for_range_from n body gs (p, int a + 1, int b + 1))
     = for_range_from b storeName (groupNames gs) (for_range_from a storeId (groupIds gs) p)"
proof (induction gs arbitrary: n p a b)
  case Nil
  then show ?case by (simp add: groupIds_def groupNames_def)
next
  case (Cons g gs)
  show ?case
  proof (cases "sg_Id g = ''''")
    case True
    have "for_range_from a storeId (groupIds gs) (p(nameKey @ Itoa (int b + 1) \<mapsto> sg_Name g))
          = (for_range_from a storeId (groupIds gs) p)(nameKey @ Itoa (int b + 1) \<mapsto> sg_Name g)"
      unfolding storeId_def by (rule store_commute) (rule assms(4))
    then have c: "for_range_from a storeId (groupIds gs) (storeName b (sg_Name g) p)
          = storeName b (sg_Name g) (for_range_from a storeId (groupIds gs) p)"
      by (simp add: storeName_def)
    have "body n g (p, int a + 1, int b + 1) = (storeName b (sg_Name g) p, int a + 1, int (Suc b) + 1)"
      using True by (simp add: body_def storeName_def)
    moreover have "groupIds (g # gs) = groupIds gs" "groupNames (g # gs) = sg_Name g # groupNames gs"
      using True by (simp_all add: groupIds_def groupNames_def)
    ultimately show ?thesis
      using Cons.IH [of "Suc n" "storeName b (sg_Name g) p" a "Suc b"] c
      by (simp only: for_range_from.simps)
  next
    case False
    have "body n g (p, int a + 1, int b + 1) = (storeId a (sg_Id g) p, int (Suc a) + 1, int b + 1)"
      using False by (simp add: body_def storeId_def)
    moreover have "groupIds (g # gs) = sg_Id g # groupIds gs" "groupNames (g # gs) = groupNames gs"
      using False by (simp_all add: groupIds_def groupNames_def)
    ultimately show ?thesis
      using Cons.IH [of "Suc n" "storeId a (sg_Id g) p" "Suc a" b]
      by (simp only: for_range_from.simps)
  qed
qed

lemma addGroupIdsOrNames_eq:
  assumes "\<And>x y. nameLabel @ CHR ''.'' # y \<noteq> idLabel @ CHR ''.'' # x"
  shows "addGroupIdsOrNames (idLabel @ ''.'') (nameLabel @ ''.'') gs p
           = addParamsList (addParamsList p idLabel (groupIds gs)) nameLabel (groupNames gs)"
  using addGroupIdsOrNames_from [of "nameLabel @ ''.''" "idLabel @ ''.''" 0 gs p 0 0] assms
  by (simp add: addGroupIdsOrNames_def addParamsList_def for_range_def)


section \<open>RunInstances: which keys each step writes\<close>

lemma set_if_apply: "set_if c k v p key = (if c \<and> key = k then Some v else p key)"
  by (simp add: set_if_def)

lemma addBlockDeviceParams_other:
  assumes "\<forall>rest. key \<noteq> prename @ ''BlockDeviceMapping.'' @ rest"
  shows "addBlockDeviceParams prename p bds key = p key"
proof (rule addBlockDeviceParams_frame)
  fix i assume "i < length bds"
  show "\<forall>sub \<in> set blockDeviceSubKeys. key \<noteq> blockDevicePrefix prename i @ sub"
    using assms by (simp add: blockDevicePrefix_def)
qed

lemma addParamsList_other:
  assumes "\<forall>rest. key \<noteq> label @ ''.'' @ rest"
  shows "addParamsList p label ids key = p key"
  by (rule addParamsList_frame) (use assms in simp)

lemma addParamsList_beyond:
  assumes "length ids \<le> n"
  shows "addParamsList p label ids (label @ ''.'' @ Itoa (int n + 1))
           = p (label @ ''.'' @ Itoa (int n + 1))"
  by (rule addParamsList_frame) (use assms in simp)

lemma network_with_interface:
  assumes "SubnetId options \<noteq> ''''" and "AssociatePublicIpAddress options"
  shows "RunInstances_network options p
     = addParamsList
         (p(''NetworkInterface.0.DeviceIndex'' \<mapsto> ''0'',
            ''NetworkInterface.0.AssociatePublicIpAddress'' \<mapsto> ''true'',
            ''NetworkInterface.0.SubnetId'' \<mapsto> SubnetId options))
         ''NetworkInterface.0.SecurityGroupId'' (groupIds (SecurityGroups options))"
  using assms addGroupIds_eq [of "''NetworkInterface.0.SecurityGroupId''"]
  by (simp add: RunInstances_network_def)

lemma network_without_interface:
  assumes "\<not> (SubnetId options \<noteq> '''' \<and> AssociatePublicIpAddress options)"
  shows "RunInstances_network options p
     = addParamsList
         (addParamsList (set_if (SubnetId options \<noteq> '''') ''SubnetId'' (SubnetId options) p)
            ''SecurityGroupId'' (groupIds (SecurityGroups options)))
         ''SecurityGroup'' (groupNames (SecurityGroups options))"
  using assms addGroupIdsOrNames_eq [of "''SecurityGroup''" "''SecurityGroupId''"]
  by (cases "SubnetId options = []") (simp_all add: RunInstances_network_def)

lemma network_other:
  assumes "\<forall>rest. key \<noteq> ''NetworkInterface.0.'' @ rest"
    and "\<forall>rest. key \<noteq> ''SecurityGroupId.'' @ rest"
    and "\<forall>rest. key \<noteq> ''SecurityGroup.'' @ rest"
    and "key \<noteq> ''SubnetId''"
  shows "RunInstances_network options p key = p key"
proof (cases "SubnetId options \<noteq> '''' \<and> AssociatePublicIpAddress options")
  case True
  then show ?thesis
    using assms by (simp add: network_with_interface addParamsList_other)
next
  case False
  then show ?thesis
    using assms by (simp add: network_without_interface addParamsList_other set_if_apply)
qed


section \<open>RunInstances: counts and client token\<close>

lemma RunInstances_query:
  "RunInstances env ec2 options resp0 st =
     (if snd (clientToken env) \<noteq> None then (None, snd (clientToken env), st)
      else (let out = query env ec2 (RunInstances_params env options) resp0 st
            in if out_err out \<noteq> None then (None, out_err out, out_state out)
               else (Some (out_resp out), None, out_state out)))"
  by (simp add: RunInstances_def RunInstances_params_def Let_def split_beta)

lemma rest_MinCount:
  "RunInstances_rest env options token p ''MinCount'' = p ''MinCount''"
  "RunInstances_rest env options token p ''MaxCount'' = p ''MaxCount''"
  "RunInstances_rest env options token p ''ClientToken'' = Some token"
  by (simp_all add: RunInstances_rest_def Let_def set_if_apply addBlockDeviceParams_other
      network_other split: option.split)

lemma head_counts:
  "RunInstances_head options ''MinCount''
     = Some (Itoa (if MinCount options = 0 \<and> MaxCount options = 0 then 1 else MinCount options))"
  "RunInstances_head options ''MaxCount''
     = Some (Itoa (if MinCount options = 0 \<and> MaxCount options = 0 then 1
                   else if MaxCount options = 0 then MinCount options else MaxCount options))"
  by (simp_all add: RunInstances_head_def Let_def)

lemma rand_Read_length: "length (fst (rand_Read env b)) = length b"
  by (simp add: rand_Read_def split_beta)

lemma hex_length: "length (hex_EncodeToString bs) = 2 * length bs"
  by (induction bs) (simp_all add: hex_EncodeToString_def)

lemma nibble_hi: "unat (drop_bit 4 (v :: 8 word)) < 16"
proof -
  have "unat v < 256" using unsigned_less [of v, where 'a = nat] by simp
  then have "unat v div 2 ^ 4 < 16" by simp
  moreover have "unat (drop_bit 4 v) = drop_bit 4 (unat v)"
    by (rule unat_drop_bit_eq)
  moreover have "drop_bit 4 (unat v) = unat v div 2 ^ 4"
    by (rule drop_bit_eq_div)
  ultimately show ?thesis by (simp only:)
qed

lemma nibble_lo: "unat ((v :: 8 word) AND 0x0f) < 16"
proof -
  have "v AND 0x0f = take_bit 4 v"
    using take_bit_eq_mask [of 4 v] by (simp add: mask_eq_exp_minus_1)
  then have "unat (v AND 0x0f) = take_bit 4 (unat v)"
    by (simp only: unsigned_take_bit_eq)
  moreover have "take_bit 4 (unat v) < 2 ^ 4"
    by (rule take_bit_nat_less_exp)
  ultimately show ?thesis by simp
qed

lemma hextable_nth: "n < 16 \<Longrightarrow> hextable ! n \<in> set hextable"
proof -
  assume "n < 16"
  moreover have "length hextable = 16" by (simp add: hextable_def)
  ultimately show ?thesis by (simp only: nth_mem)
qed

lemma hex_chars: "set (hex_EncodeToString bs) \<subseteq> set hextable"
  by (induction bs) (simp_all add: hex_EncodeToString_def hextable_nth nibble_hi nibble_lo)


text \<open>
  Claim C8. The parameters \<open>RunInstances\<close> sends carry \<open>MinCount = MaxCount = 1\<close> when
  both options are zero, \<open>MaxCount = MinCount\<close> when only \<open>MaxCount\<close> is zero, and both
  options unchanged otherwise; these parameters are the map it passes to \<open>query\<close>.
\<close>

theorem RunInstances_counts:
  "(let p = RunInstances_params env options
    in (MinCount options = 0 \<and> MaxCount options = 0 \<longrightarrow>
          p ''MinCount'' = Some ''1'' \<and> p ''MaxCount'' = Some ''1'')
     \<and> (MinCount options \<noteq> 0 \<and> MaxCount options = 0 \<longrightarrow>
          p ''MinCount'' = Some (Itoa (MinCount options))
        \<and> p ''MaxCount'' = Some (Itoa (MinCount options)))
     \<and> (MaxCount options \<noteq> 0 \<longrightarrow>
          p ''MinCount'' = Some (Itoa (MinCount options))
        \<and> p ''MaxCount'' = Some (Itoa (MaxCount options)))
     \<and> (snd (clientToken env) = None \<longrightarrow>
          RunInstances env ec2 options resp0 st =
            (let out = query env ec2 p resp0 st
             in if out_err out \<noteq> None then (None, out_err out, out_state out)
                else (Some (out_resp out), None, out_state out))))"
  by (simp add: Let_def RunInstances_query RunInstances_params_def rest_MinCount head_counts
      Itoa_small)

theorem RunInstances_counts_witness:
  "RunInstances_params demo_env demo_options ''MinCount'' = Some ''1''
   \<and> RunInstances_params demo_env demo_options ''MaxCount'' = Some ''1''
   \<and> RunInstances_params demo_env demo_options_classic ''MinCount'' = Some ''2''
   \<and> RunInstances_params demo_env demo_options_classic ''MaxCount'' = Some ''2''
   \<and> RunInstances_params demo_env demo_options_range ''MinCount'' = Some ''2''
   \<and> RunInstances_params demo_env demo_options_range ''MaxCount'' = Some ''3''"
  using RunInstances_counts [of demo_env demo_options "NewWithClient () demo_region ok_client" "''zero''" state0]
    RunInstances_counts [of demo_env demo_options_classic "NewWithClient () demo_region ok_client" "''zero''" state0]
    RunInstances_counts [of demo_env demo_options_range "NewWithClient () demo_region ok_client" "''zero''" state0]
  by (simp add: Let_def demo_options_def demo_options_classic_def demo_options_range_def
      Itoa_small)

lemma clientToken_ok:
  assumes "snd (clientToken env) = None"
  shows "fst (clientToken env) = hex_EncodeToString (fst (rand_Read env (replicate 32 0)))"
  using assms by (simp add: clientToken_def Let_def split_beta split: if_splits)

lemma clientToken_err:
  assumes "snd (clientToken env) = Some e"
  shows "fst (clientToken env) = ''''"
  using assms by (simp add: clientToken_def Let_def split_beta split: if_splits)

text \<open>
  Claim C10. When \<open>clientToken\<close> returns no error its result is the hexadecimal encoding
  of the 32 bytes read from the random source: 64 characters, all of them hexadecimal
  digits. \<open>RunInstances\<close> passes that token to \<open>query\<close> as \<open>ClientToken\<close>; when
  \<open>clientToken\<close> fails, \<open>RunInstances\<close> returns nil and the error, and the world is as
  before: no request was made.
\<close>

theorem clientToken_RunInstances:
  "(snd (clientToken env) = None \<longrightarrow>
      length (fst (clientToken env)) = 64
    \<and> set (fst (clientToken env)) \<subseteq> set ''0123456789abcdef''
    \<and> fst (clientToken env) = hex_EncodeToString (fst (rand_Read env (replicate 32 0)))
    \<and> length (fst (rand_Read env (replicate 32 0))) = 32
    \<and> RunInstances_params env options ''ClientToken'' = Some (fst (clientToken env))
    \<and> RunInstances env ec2 options resp0 st =
         (let out = query env ec2 (RunInstances_params env options) resp0 st
          in if out_err out \<noteq> None then (None, out_err out, out_state out)
             else (Some (out_resp out), None, out_state out)))
   \<and> (\<forall>e. snd (clientToken env) = Some e \<longrightarrow>
         fst (clientToken env) = ''''
       \<and> RunInstances env ec2 options resp0 st = (None, Some e, st))"
proof (intro conjI impI allI)
  assume ok: "snd (clientToken env) = None"
  show "length (fst (clientToken env)) = 64"
    by (simp add: clientToken_ok [OF ok] hex_length rand_Read_length)
  show "set (fst (clientToken env)) \<subseteq> set ''0123456789abcdef''"
    using hex_chars [of "fst (rand_Read env (replicate 32 0))"]
    by (simp only: clientToken_ok [OF ok] hextable_def)
  show "fst (clientToken env) = hex_EncodeToString (fst (rand_Read env (replicate 32 0)))"
    by (rule clientToken_ok [OF ok])
  show "length (fst (rand_Read env (replicate 32 0))) = 32"
    by (simp add: rand_Read_length)
  show "RunInstances_params env options ''ClientToken'' = Some (fst (clientToken env))"
    by (simp add: RunInstances_params_def rest_MinCount)
  show "RunInstances env ec2 options resp0 st =
         (let out = query env ec2 (RunInstances_params env options) resp0 st
          in if out_err out \<noteq> None then (None, out_err out, out_state out)
             else (Some (out_resp out), None, out_state out))"
    using ok by (simp add: RunInstances_query)
next
  fix e assume err: "snd (clientToken env) = Some e"
  show "fst (clientToken env) = ''''"
    by (rule clientToken_err [OF err])
  show "RunInstances env ec2 options resp0 st = (None, Some e, st)"
    using err by (simp add: RunInstances_query)
qed

lemma demo_token:
  "clientToken demo_env
     = (''000102030405060708090a0b0c0d0e0f101112131415161718191a1b1c1d1e1f'', None)"
  by code_simp

lemma demo_no_token:
  "clientToken demo_env_no_random = ('''', Some (LibError ''unexpected EOF''))"
  by code_simp

theorem clientToken_RunInstances_witness:
  "fst (clientToken demo_env)
     = ''000102030405060708090a0b0c0d0e0f101112131415161718191a1b1c1d1e1f''
   \<and> length (fst (clientToken demo_env)) = 64
   \<and> RunInstances_params demo_env demo_options ''ClientToken''
       = Some ''000102030405060708090a0b0c0d0e0f101112131415161718191a1b1c1d1e1f''
   \<and> RunInstances demo_env_no_random (NewWithClient () demo_region ok_client) demo_options
        ''zero'' state0
       = (None, Some (LibError ''unexpected EOF''), state0)"
proof -
  have ok: "snd (clientToken demo_env) = None"
    by (simp add: demo_token)
  have tok: "fst (clientToken demo_env)
     = ''000102030405060708090a0b0c0d0e0f101112131415161718191a1b1c1d1e1f''"
    by (simp add: demo_token)
  have err: "snd (clientToken demo_env_no_random) = Some (LibError ''unexpected EOF'')"
    by (simp add: demo_no_token)
  note a = clientToken_RunInstances [of demo_env demo_options
      "NewWithClient () demo_region ok_client" "''zero''" state0,
      THEN conjunct1, rule_format, OF ok]
  note b = clientToken_RunInstances [of demo_env_no_random demo_options
      "NewWithClient () demo_region ok_client" "''zero''" state0,
      THEN conjunct2, rule_format, OF err]
  have l: "length (fst (clientToken demo_env)) = 64"
    using a by (rule conjunct1)
  have p: "RunInstances_params demo_env demo_options ''ClientToken''
             = Some (fst (clientToken demo_env))"
    using a [THEN conjunct2, THEN conjunct2, THEN conjunct2, THEN conjunct2, THEN conjunct1] .
  show ?thesis
    using tok l p [unfolded tok] b [THEN conjunct2] by (intro conjI)
qed


section \<open>RunInstances: subnet and security groups\<close>

lemmas ni_at = addParamsList_at [where label = "''NetworkInterface.0.SecurityGroupId''", simplified]
lemmas ni_beyond = addParamsList_beyond [where label = "''NetworkInterface.0.SecurityGroupId''", simplified]
lemmas id_at = addParamsList_at [where label = "''SecurityGroupId''", simplified]
lemmas id_beyond = addParamsList_beyond [where label = "''SecurityGroupId''", simplified]
lemmas name_at = addParamsList_at [where label = "''SecurityGroup''", simplified]
lemmas name_beyond = addParamsList_beyond [where label = "''SecurityGroup''", simplified]

lemma head_no_network:
  "RunInstances_head options (''NetworkInterface.0.'' @ s) = None"
  "RunInstances_head options (''SecurityGroupId.'' @ s) = None"
  "RunInstances_head options (''SecurityGroup.'' @ s) = None"
  "RunInstances_head options ''SubnetId'' = None"
  by (simp_all add: RunInstances_head_def Let_def makeParams_def split_beta)

lemma params_interface:
  assumes "SubnetId options \<noteq> ''''" and "AssociatePublicIpAddress options"
  shows "RunInstances_params env options ''NetworkInterface.0.SubnetId'' = Some (SubnetId options)"
    and "RunInstances_params env options ''NetworkInterface.0.DeviceIndex'' = Some ''0''"
    and "RunInstances_params env options ''NetworkInterface.0.AssociatePublicIpAddress'' = Some ''true''"
    and "n < length (groupIds (SecurityGroups options)) \<Longrightarrow>
         RunInstances_params env options (''NetworkInterface.0.SecurityGroupId.'' @ Itoa (int n + 1))
           = Some (groupIds (SecurityGroups options) ! n)"
    and "length (groupIds (SecurityGroups options)) \<le> n \<Longrightarrow>
         RunInstances_params env options (''NetworkInterface.0.SecurityGroupId.'' @ Itoa (int n + 1))
           = None"
    and "RunInstances_params env options ''SubnetId'' = None"
    and "RunInstances_params env options (''SecurityGroupId.'' @ s) = None"
    and "RunInstances_params env options (''SecurityGroup.'' @ s) = None"
  using assms
  by (simp_all add: RunInstances_params_def RunInstances_rest_def Let_def set_if_apply
      addBlockDeviceParams_other network_with_interface addParamsList_other ni_at ni_beyond
      head_no_network [simplified] split: option.split)

lemma params_no_interface:
  assumes "\<not> (SubnetId options \<noteq> '''' \<and> AssociatePublicIpAddress options)"
  shows "RunInstances_params env options ''SubnetId''
           = (if SubnetId options \<noteq> '''' then Some (SubnetId options) else None)"
    and "n < length (groupIds (SecurityGroups options)) \<Longrightarrow>
         RunInstances_params env options (''SecurityGroupId.'' @ Itoa (int n + 1))
           = Some (groupIds (SecurityGroups options) ! n)"
    and "length (groupIds (SecurityGroups options)) \<le> n \<Longrightarrow>
         RunInstances_params env options (''SecurityGroupId.'' @ Itoa (int n + 1)) = None"
    and "m < length (groupNames (SecurityGroups options)) \<Longrightarrow>
         RunInstances_params env options (''SecurityGroup.'' @ Itoa (int m + 1))
           = Some (groupNames (SecurityGroups options) ! m)"
    and "length (groupNames (SecurityGroups options)) \<le> m \<Longrightarrow>
         RunInstances_params env options (''SecurityGroup.'' @ Itoa (int m + 1)) = None"
    and "RunInstances_params env options (''NetworkInterface.0.'' @ s) = None"
  by (simp_all add: RunInstances_params_def RunInstances_rest_def Let_def set_if_apply
      addBlockDeviceParams_other network_without_interface [OF assms] addParamsList_other
      id_at id_beyond name_at name_beyond head_no_network [simplified] split: option.split)


text \<open>
  Claim C9. When \<open>SubnetId\<close> is non-empty and \<open>AssociatePublicIpAddress\<close> is set, the
  parameters of \<open>RunInstances\<close> carry the subnet as \<open>NetworkInterface.0.SubnetId\<close> and
  the ids of the groups that have one as \<open>NetworkInterface.0.SecurityGroupId.1\<close>,
  \<open>.2\<close>, ... in the order given, and nothing else under that key; no \<open>SubnetId\<close>,
  \<open>SecurityGroupId.*\<close> or \<open>SecurityGroup.*\<close> is sent, so groups given by name only are
  dropped. Otherwise \<open>SubnetId\<close> is sent when non-empty, the groups with an id are
  \<open>SecurityGroupId.1\<close>, \<open>.2\<close>, ... and the groups without one are \<open>SecurityGroup.1\<close>,
  \<open>.2\<close>, ... by name, each numbered on its own in the order given, and nothing is sent
  under \<open>NetworkInterface.0\<close>. These parameters are the map passed to \<open>query\<close>.
\<close>

theorem RunInstances_security_groups:
  "(let p = RunInstances_params env options;
        ids = groupIds (SecurityGroups options);
        names = groupNames (SecurityGroups options)
    in (SubnetId options \<noteq> '''' \<and> AssociatePublicIpAddress options \<longrightarrow>
          p ''NetworkInterface.0.SubnetId'' = Some (SubnetId options)
        \<and> p ''NetworkInterface.0.DeviceIndex'' = Some ''0''
        \<and> p ''NetworkInterface.0.AssociatePublicIpAddress'' = Some ''true''
        \<and> (\<forall>n < length ids.
              p (''NetworkInterface.0.SecurityGroupId.'' @ Itoa (int n + 1)) = Some (ids ! n))
        \<and> (\<forall>n \<ge> length ids.
              p (''NetworkInterface.0.SecurityGroupId.'' @ Itoa (int n + 1)) = None)
        \<and> p ''SubnetId'' = None
        \<and> (\<forall>s. p (''SecurityGroupId.'' @ s) = None \<and> p (''SecurityGroup.'' @ s) = None))
     \<and> (\<not> (SubnetId options \<noteq> '''' \<and> AssociatePublicIpAddress options) \<longrightarrow>
          p ''SubnetId'' = (if SubnetId options \<noteq> '''' then Some (SubnetId options) else None)
        \<and> (\<forall>n < length ids. p (''SecurityGroupId.'' @ Itoa (int n + 1)) = Some (ids ! n))
        \<and> (\<forall>n \<ge> length ids. p (''SecurityGroupId.'' @ Itoa (int n + 1)) = None)
        \<and> (\<forall>m < length names. p (''SecurityGroup.'' @ Itoa (int m + 1)) = Some (names ! m))
        \<and> (\<forall>m \<ge> length names. p (''SecurityGroup.'' @ Itoa (int m + 1)) = None)
        \<and> (\<forall>s. p (''NetworkInterface.0.'' @ s) = None))
     \<and> (snd (clientToken env) = None \<longrightarrow>
          RunInstances env ec2 options resp0 st =
            (let out = query env ec2 p resp0 st
             in if out_err out \<noteq> None then (None, out_err out, out_state out)
                else (Some (out_resp out), None, out_state out))))"
proof -
  have a: "SubnetId options \<noteq> '''' \<and> AssociatePublicIpAddress options \<longrightarrow>
          RunInstances_params env options ''NetworkInterface.0.SubnetId'' = Some (SubnetId options)
        \<and> RunInstances_params env options ''NetworkInterface.0.DeviceIndex'' = Some ''0''
        \<and> RunInstances_params env options ''NetworkInterface.0.AssociatePublicIpAddress'' = Some ''true''
        \<and> (\<forall>n < length (groupIds (SecurityGroups options)).
              RunInstances_params env options (''NetworkInterface.0.SecurityGroupId.'' @ Itoa (int n + 1))
                = Some (groupIds (SecurityGroups options) ! n))
        \<and> (\<forall>n \<ge> length (groupIds (SecurityGroups options)).
              RunInstances_params env options (''NetworkInterface.0.SecurityGroupId.'' @ Itoa (int n + 1))
                = None)
        \<and> RunInstances_params env options ''SubnetId'' = None
        \<and> (\<forall>s. RunInstances_params env options (''SecurityGroupId.'' @ s) = None
               \<and> RunInstances_params env options (''SecurityGroup.'' @ s) = None)"
    by (intro impI conjI allI; elim conjE) (rule params_interface; assumption)+
  have b: "\<not> (SubnetId options \<noteq> '''' \<and> AssociatePublicIpAddress options) \<longrightarrow>
          RunInstances_params env options ''SubnetId''
            = (if SubnetId options \<noteq> '''' then Some (SubnetId options) else None)
        \<and> (\<forall>n < length (groupIds (SecurityGroups options)).
              RunInstances_params env options (''SecurityGroupId.'' @ Itoa (int n + 1))
                = Some (groupIds (SecurityGroups options) ! n))
        \<and> (\<forall>n \<ge> length (groupIds (SecurityGroups options)).
              RunInstances_params env options (''SecurityGroupId.'' @ Itoa (int n + 1)) = None)
        \<and> (\<forall>m < length (groupNames (SecurityGroups options)).
              RunInstances_params env options (''SecurityGroup.'' @ Itoa (int m + 1))
                = Some (groupNames (SecurityGroups options) ! m))
        \<and> (\<forall>m \<ge> length (groupNames (SecurityGroups options)).
              RunInstances_params env options (''SecurityGroup.'' @ Itoa (int m + 1)) = None)
        \<and> (\<forall>s. RunInstances_params env options (''NetworkInterface.0.'' @ s) = None)"
    by (intro impI conjI allI) (rule params_no_interface; assumption)+
  have c: "snd (clientToken env) = None \<longrightarrow>
          RunInstances env ec2 options resp0 st =
            (let out = query env ec2 (RunInstances_params env options) resp0 st
             in if out_err out \<noteq> None then (None, out_err out, out_state out)
                else (Some (out_resp out), None, out_state out))"
    by (simp add: RunInstances_query)
  show ?thesis
    unfolding Let_def using a b c [unfolded Let_def] by (intro conjI)
qed

lemma demo_groups:
  "groupIds (SecurityGroups demo_options) = [''sg-1'', ''sg-2'']"
  "groupNames (SecurityGroups demo_options) = [''web'']"
  "groupIds (SecurityGroups demo_options_classic) = [''sg-1'', ''sg-2'']"
  "groupNames (SecurityGroups demo_options_classic) = [''web'']"
  by (simp_all add: demo_options_def demo_options_classic_def groupIds_def groupNames_def)

theorem RunInstances_security_groups_witness:
  "RunInstances_params demo_env demo_options ''NetworkInterface.0.SubnetId'' = Some ''subnet-1''
   \<and> RunInstances_params demo_env demo_options ''NetworkInterface.0.SecurityGroupId.1''
       = Some ''sg-1''
   \<and> RunInstances_params demo_env demo_options ''NetworkInterface.0.SecurityGroupId.2''
       = Some ''sg-2''
   \<and> RunInstances_params demo_env demo_options ''NetworkInterface.0.SecurityGroupId.3'' = None
   \<and> RunInstances_params demo_env demo_options ''SecurityGroup.1'' = None
   \<and> RunInstances_params demo_env demo_options_classic ''SubnetId'' = Some ''subnet-1''
   \<and> RunInstances_params demo_env demo_options_classic ''SecurityGroupId.1'' = Some ''sg-1''
   \<and> RunInstances_params demo_env demo_options_classic ''SecurityGroupId.2'' = Some ''sg-2''
   \<and> RunInstances_params demo_env demo_options_classic ''SecurityGroup.1'' = Some ''web''
   \<and> RunInstances_params demo_env demo_options_classic ''SecurityGroup.2'' = None
   \<and> RunInstances_params demo_env demo_options_classic ''NetworkInterface.0.SubnetId'' = None"
proof -
  have x: "SubnetId demo_options \<noteq> '''' \<and> AssociatePublicIpAddress demo_options"
    by (simp add: demo_options_def)
  have y: "\<not> (SubnetId demo_options_classic \<noteq> ''''
              \<and> AssociatePublicIpAddress demo_options_classic)"
    by (simp add: demo_options_def demo_options_classic_def)
  note a = RunInstances_security_groups [of demo_env demo_options
      "NewWithClient () demo_region ok_client" "''zero''" state0, unfolded Let_def,
      THEN conjunct1, rule_format, OF x]
  note b = RunInstances_security_groups [of demo_env demo_options_classic
      "NewWithClient () demo_region ok_client" "''zero''" state0, unfolded Let_def,
      THEN conjunct2, THEN conjunct1, rule_format, OF y]
  have a1: "RunInstances_params demo_env demo_options ''NetworkInterface.0.SubnetId''
              = Some ''subnet-1''"
    using a [THEN conjunct1] by (simp add: demo_options_def)
  note a4 = a [THEN conjunct2, THEN conjunct2, THEN conjunct2, THEN conjunct1, rule_format]
  note a5 = a [THEN conjunct2, THEN conjunct2, THEN conjunct2, THEN conjunct2, THEN conjunct1,
      rule_format]
  note a7 = a [THEN conjunct2, THEN conjunct2, THEN conjunct2, THEN conjunct2, THEN conjunct2,
      THEN conjunct2, rule_format]
  have a2: "RunInstances_params demo_env demo_options ''NetworkInterface.0.SecurityGroupId.1''
       = Some ''sg-1''"
    using a4 [of 0] by (simp add: demo_groups Itoa_small)
  have a3: "RunInstances_params demo_env demo_options ''NetworkInterface.0.SecurityGroupId.2''
       = Some ''sg-2''"
    using a4 [of 1] by (simp add: demo_groups Itoa_small)
  have a6: "RunInstances_params demo_env demo_options ''NetworkInterface.0.SecurityGroupId.3''
       = None"
    using a5 [of 2] by (simp add: demo_groups Itoa_small)
  have a8: "RunInstances_params demo_env demo_options ''SecurityGroup.1'' = None"
    using a7 [of "''1''"] by simp
  have b1: "RunInstances_params demo_env demo_options_classic ''SubnetId'' = Some ''subnet-1''"
    using b [THEN conjunct1] by (simp add: demo_options_def demo_options_classic_def)
  note b2 = b [THEN conjunct2, THEN conjunct1, rule_format]
  note b4 = b [THEN conjunct2, THEN conjunct2, THEN conjunct2, THEN conjunct1, rule_format]
  note b5 = b [THEN conjunct2, THEN conjunct2, THEN conjunct2, THEN conjunct2, THEN conjunct1,
      rule_format]
  note b6 = b [THEN conjunct2, THEN conjunct2, THEN conjunct2, THEN conjunct2, THEN conjunct2,
      rule_format]
  have c1: "RunInstances_params demo_env demo_options_classic ''SecurityGroupId.1'' = Some ''sg-1''"
    using b2 [of 0] by (simp add: demo_groups Itoa_small)
  have c2: "RunInstances_params demo_env demo_options_classic ''SecurityGroupId.2'' = Some ''sg-2''"
    using b2 [of 1] by (simp add: demo_groups Itoa_small)
  have c3: "RunInstances_params demo_env demo_options_classic ''SecurityGroup.1'' = Some ''web''"
    using b4 [of 0] by (simp add: demo_groups Itoa_small)
  have c4: "RunInstances_params demo_env demo_options_classic ''SecurityGroup.2'' = None"
    using b5 [of 1] by (simp add: demo_groups Itoa_small)
  have c5: "RunInstances_params demo_env demo_options_classic ''NetworkInterface.0.SubnetId''
              = None"
    using b6 [of "''SubnetId''"] by simp
  show ?thesis
    using a1 a2 a3 a6 a8 b1 c1 c2 c3 c4 c5 by (intro conjI)
qed


section \<open>The tests of the file-info store: what passing means\<close>

text \<open>
  Claim C6. If \<open>TestFileInfoSaveGet\<close> passes, then the first \<open>Save\<close> returned no error
  and a record with a non-empty id, \<open>Get\<close> on that id returned the record with the same
  id, the second \<open>Save\<close>, of a record with \<open>DeleteAt = 123\<close>, returned no error and a
  record, and \<open>Get\<close> on the id of that record returned an error. Whenever the test reaches
  that last \<open>Get\<close>, it fails with \<open>shouldn't have gotten deleted file\<close> if the call
  returns no error, and passes otherwise.
\<close>

theorem TestFileInfoSaveGet_spec:
  "(TestFileInfoSaveGet store newId1 newId2 s0 = Pass \<longrightarrow>
      (\<exists>r1 s1 saved r2 s2 got r3 s3 info2 r4 s4.
          Save store (saveGet_info newId1) s0 = (r1, s1) \<and> Err r1 = None
        \<and> as_FileInfo (Data r1) = Inr saved \<and> fi_Id saved \<noteq> ''''
        \<and> Get store (fi_Id saved) s1 = (r2, s2) \<and> Err r2 = None
        \<and> as_FileInfo (Data r2) = Inr got \<and> fi_Id got = fi_Id saved
        \<and> fi_DeleteAt (saveGet_deleted newId2) = 123
        \<and> Save store (saveGet_deleted newId2) s2 = (r3, s3) \<and> Err r3 = None
        \<and> as_FileInfo (Data r3) = Inr info2
        \<and> Get store (fi_Id info2) s3 = (r4, s4) \<and> Err r4 \<noteq> None))
   \<and> (\<forall>r1 s1 saved r2 s2 got r3 s3 info2 r4 s4.
          Save store (saveGet_info newId1) s0 = (r1, s1) \<and> Err r1 = None
        \<and> as_FileInfo (Data r1) = Inr saved \<and> fi_Id saved \<noteq> ''''
        \<and> Get store (fi_Id saved) s1 = (r2, s2) \<and> Err r2 = None
        \<and> as_FileInfo (Data r2) = Inr got \<and> fi_Id got = fi_Id saved
        \<and> Save store (saveGet_deleted newId2) s2 = (r3, s3) \<and> Err r3 = None
        \<and> as_FileInfo (Data r3) = Inr info2
        \<and> Get store (fi_Id info2) s3 = (r4, s4)
        \<longrightarrow> TestFileInfoSaveGet store newId1 newId2 s0
              = (if Err r4 = None then Fatal ''shouldn't have gotten deleted file'' else Pass))"
proof (intro conjI impI allI)
  assume pass: "TestFileInfoSaveGet store newId1 newId2 s0 = Pass"
  obtain r1 s1 where a1: "Save store (saveGet_info newId1) s0 = (r1, s1)"
    by (cases "Save store (saveGet_info newId1) s0")
  from pass a1 have e1: "Err r1 = None"
    by (simp add: TestFileInfoSaveGet_def Let_def split: option.splits)
  from pass a1 e1 obtain saved where v1: "as_FileInfo (Data r1) = Inr saved"
    by (cases "as_FileInfo (Data r1)") (simp_all add: TestFileInfoSaveGet_def Let_def)
  from pass a1 e1 v1 have n1: "fi_Id saved \<noteq> ''''"
    by (simp add: TestFileInfoSaveGet_def Let_def split: if_splits)
  obtain r2 s2 where a2: "Get store (fi_Id saved) s1 = (r2, s2)"
    by (cases "Get store (fi_Id saved) s1")
  from pass a1 e1 v1 n1 a2 have e2: "Err r2 = None"
    by (simp add: TestFileInfoSaveGet_def Let_def split: option.splits)
  from pass a1 e1 v1 n1 a2 e2 obtain got where v2: "as_FileInfo (Data r2) = Inr got"
    by (cases "as_FileInfo (Data r2)") (simp_all add: TestFileInfoSaveGet_def Let_def)
  from pass a1 e1 v1 n1 a2 e2 v2 have n2: "fi_Id got = fi_Id saved"
    by (simp add: TestFileInfoSaveGet_def Let_def split: if_splits)
  obtain r3 s3 where a3: "Save store (saveGet_deleted newId2) s2 = (r3, s3)"
    by (cases "Save store (saveGet_deleted newId2) s2")
  from pass a1 e1 v1 n1 a2 e2 v2 n2 a3 have e3: "Err r3 = None"
    by (simp add: TestFileInfoSaveGet_def Let_def Must_def split: option.splits)
  from pass a1 e1 v1 n1 a2 e2 v2 n2 a3 e3 obtain info2 where v3: "as_FileInfo (Data r3) = Inr info2"
    by (cases "as_FileInfo (Data r3)") (simp_all add: TestFileInfoSaveGet_def Let_def Must_def)
  obtain r4 s4 where a4: "Get store (fi_Id info2) s3 = (r4, s4)"
    by (cases "Get store (fi_Id info2) s3")
  from pass a1 e1 v1 n1 a2 e2 v2 n2 a3 e3 v3 a4 have e4: "Err r4 \<noteq> None"
    by (simp add: TestFileInfoSaveGet_def Let_def Must_def split: if_splits)
  have d: "fi_DeleteAt (saveGet_deleted newId2) = 123"
    by (simp add: saveGet_deleted_def)
  from a1 e1 v1 n1 a2 e2 v2 n2 d a3 e3 v3 a4 e4
  show "\<exists>r1 s1 saved r2 s2 got r3 s3 info2 r4 s4.
          Save store (saveGet_info newId1) s0 = (r1, s1) \<and> Err r1 = None
        \<and> as_FileInfo (Data r1) = Inr saved \<and> fi_Id saved \<noteq> ''''
        \<and> Get store (fi_Id saved) s1 = (r2, s2) \<and> Err r2 = None
        \<and> as_FileInfo (Data r2) = Inr got \<and> fi_Id got = fi_Id saved
        \<and> fi_DeleteAt (saveGet_deleted newId2) = 123
        \<and> Save store (saveGet_deleted newId2) s2 = (r3, s3) \<and> Err r3 = None
        \<and> as_FileInfo (Data r3) = Inr info2
        \<and> Get store (fi_Id info2) s3 = (r4, s4) \<and> Err r4 \<noteq> None"
    by blast
next
  fix r1 s1 saved r2 s2 got r3 s3 info2 r4 s4
  assume "Save store (saveGet_info newId1) s0 = (r1, s1) \<and> Err r1 = None
        \<and> as_FileInfo (Data r1) = Inr saved \<and> fi_Id saved \<noteq> ''''
        \<and> Get store (fi_Id saved) s1 = (r2, s2) \<and> Err r2 = None
        \<and> as_FileInfo (Data r2) = Inr got \<and> fi_Id got = fi_Id saved
        \<and> Save store (saveGet_deleted newId2) s2 = (r3, s3) \<and> Err r3 = None
        \<and> as_FileInfo (Data r3) = Inr info2
        \<and> Get store (fi_Id info2) s3 = (r4, s4)"
  then show "TestFileInfoSaveGet store newId1 newId2 s0
              = (if Err r4 = None then Fatal ''shouldn't have gotten deleted file'' else Pass)"
    by (simp add: TestFileInfoSaveGet_def Let_def Must_def)
qed


theorem TestFileInfoSaveGet_witness:
  "TestFileInfoSaveGet mem_store ''u1'' ''u2'' (0, []) = Pass
   \<and> (\<exists>r1 s1 saved r2 s2 got r3 s3 info2 r4 s4.
          Save mem_store (saveGet_info ''u1'') (0, []) = (r1, s1) \<and> Err r1 = None
        \<and> as_FileInfo (Data r1) = Inr saved \<and> fi_Id saved \<noteq> ''''
        \<and> Get mem_store (fi_Id saved) s1 = (r2, s2) \<and> Err r2 = None
        \<and> as_FileInfo (Data r2) = Inr got \<and> fi_Id got = fi_Id saved
        \<and> fi_DeleteAt (saveGet_deleted ''u2'') = 123
        \<and> Save mem_store (saveGet_deleted ''u2'') s2 = (r3, s3) \<and> Err r3 = None
        \<and> as_FileInfo (Data r3) = Inr info2
        \<and> Get mem_store (fi_Id info2) s3 = (r4, s4) \<and> Err r4 \<noteq> None)
   \<and> TestFileInfoSaveGet leaky_store ''u1'' ''u2'' (0, [])
       = Fatal ''shouldn't have gotten deleted file''"
proof -
  have p: "TestFileInfoSaveGet mem_store ''u1'' ''u2'' (0, []) = Pass"
    by code_simp
  note a = TestFileInfoSaveGet_spec [of mem_store "''u1''" "''u2''" "(0, [])",
      THEN conjunct1, THEN mp, OF p]
  let ?i1 = "\<lparr>fi_Id = ''id-1'', fi_CreatorId = ''u1'', fi_PostId = [],
               fi_Path = ''file.txt'', fi_DeleteAt = 0\<rparr>"
  let ?i2 = "\<lparr>fi_Id = ''id-2'', fi_CreatorId = ''u2'', fi_PostId = [],
               fi_Path = ''file.txt'', fi_DeleteAt = 123\<rparr>"
  have "TestFileInfoSaveGet leaky_store ''u1'' ''u2'' (0, [])
          = (if Err \<lparr>Data = FileInfoPtr (Some ?i2), Err = None\<rparr> = None
             then Fatal ''shouldn't have gotten deleted file'' else Pass)"
    by (rule TestFileInfoSaveGet_spec [of leaky_store "''u1''" "''u2''" "(0, [])",
          THEN conjunct2, rule_format,
          of "\<lparr>Data = FileInfoPtr (Some ?i1), Err = None\<rparr>" "(1, [?i1])" ?i1
             "\<lparr>Data = FileInfoPtr (Some ?i1), Err = None\<rparr>" "(1, [?i1])" ?i1
             "\<lparr>Data = FileInfoPtr (Some ?i2), Err = None\<rparr>" "(2, [?i1, ?i2])" ?i2
             _ "(2, [?i1, ?i2])"])
       (simp add: leaky_store_def mem_store_def mem_Save_def leaky_Get_def saveGet_info_def
          saveGet_deleted_def as_FileInfo_def as_FileInfoPtr_def Itoa_small Let_def)
  then have b: "TestFileInfoSaveGet leaky_store ''u1'' ''u2'' (0, [])
       = Fatal ''shouldn't have gotten deleted file''"
    by simp
  from p a b show ?thesis by (intro conjI)
qed


lemma save_all_Cons_Inr:
  assumes "save_all store (x # xs) s = Inr (ys, s')"
  shows "\<exists>r s1 p rest. Save store x s = (r, s1) \<and> Err r = None \<and> Data r = FileInfoPtr p
           \<and> save_all store xs s1 = Inr (rest, s') \<and> ys = p # rest"
proof -
  obtain r s1 where a: "Save store x s = (r, s1)"
    by (cases "Save store x s")
  from assms a have e: "Err r = None"
    by (simp add: Must_def split: option.splits)
  from assms a e obtain p where d: "Data r = FileInfoPtr p"
    by (cases "Data r") (simp_all add: Must_def as_FileInfoPtr_def)
  from assms a e d obtain rest where r: "save_all store xs s1 = Inr (rest, s')" "ys = p # rest"
    by (cases "save_all store xs s1")
       (auto simp add: Must_def as_FileInfoPtr_def split: prod.splits)
  from a e d r show ?thesis by blast
qed

lemma save_all_length:
  "save_all store xs s = Inr (ys, s') \<Longrightarrow> length ys = length xs"
proof (induction xs arbitrary: s ys)
  case Nil
  then show ?case by simp
next
  case (Cons x xs)
  from save_all_Cons_Inr [OF Cons.prems] obtain r s1 p rest
    where "save_all store xs s1 = Inr (rest, s')" "ys = p # rest"
    by blast
  then show ?case
    using Cons.IH [of s1 rest] by simp
qed

lemma save_all_four:
  assumes "save_all store [a, b, c, d] s0 = Inr (saved, s1)"
  shows "\<exists>ra sa rb sb rc sc rd.
           Save store a s0 = (ra, sa) \<and> Err ra = None
         \<and> Save store b sa = (rb, sb) \<and> Err rb = None
         \<and> Save store c sb = (rc, sc) \<and> Err rc = None
         \<and> Save store d sc = (rd, s1) \<and> Err rd = None"
proof -
  from save_all_Cons_Inr [OF assms] obtain ra sa pa rest1
    where 1: "Save store a s0 = (ra, sa)" "Err ra = None"
      and r1: "save_all store [b, c, d] sa = Inr (rest1, s1)"
    by blast
  from save_all_Cons_Inr [OF r1] obtain rb sb pb rest2
    where 2: "Save store b sa = (rb, sb)" "Err rb = None"
      and r2: "save_all store [c, d] sb = Inr (rest2, s1)"
    by blast
  from save_all_Cons_Inr [OF r2] obtain rc sc pc rest3
    where 3: "Save store c sb = (rc, sc)" "Err rc = None"
      and r3: "save_all store [d] sc = Inr (rest3, s1)"
    by blast
  from save_all_Cons_Inr [OF r3] obtain rd sd pd rest4
    where 4: "Save store d sc = (rd, sd)" "Err rd = None"
      and r4: "save_all store [] sd = Inr (rest4, s1)"
    by blast
  from r4 have "sd = s1" by simp
  with 1 2 3 4 show ?thesis by blast
qed

text \<open>
  Claim C7. \<open>TestFileInfoDeleteForPost\<close> saves four records: two attached to the post,
  one attached to it with \<open>DeleteAt = 123\<close>, one attached to another post. If the test
  passes, the four \<open>Save\<close> calls returned no error, \<open>DeleteForPost\<close> for the post returned
  no error, and \<open>GetForPost\<close> for the post then returned no error and the empty list.
  Whenever the test reaches \<open>GetForPost\<close> and gets a list, it passes if the list is empty
  and fails with \<open>shouldn't have returned any file infos\<close> otherwise.
\<close>

theorem TestFileInfoDeleteForPost_spec:
  "map fi_PostId (deleteForPost_infos userId postId otherPostId)
     = [postId, postId, postId, otherPostId]
   \<and> map fi_DeleteAt (deleteForPost_infos userId postId otherPostId) = [0, 0, 123, 0]
   \<and> (TestFileInfoDeleteForPost store userId postId otherPostId s0 = Pass \<longrightarrow>
        (\<exists>saved s1 r2 s2 r3 s3.
            save_all store (deleteForPost_infos userId postId otherPostId) s0 = Inr (saved, s1)
          \<and> length saved = 4
          \<and> (\<exists>ra sa rb sb rc sc rd.
                Save store (deleteForPost_infos userId postId otherPostId ! 0) s0 = (ra, sa)
              \<and> Err ra = None
              \<and> Save store (deleteForPost_infos userId postId otherPostId ! 1) sa = (rb, sb)
              \<and> Err rb = None
              \<and> Save store (deleteForPost_infos userId postId otherPostId ! 2) sb = (rc, sc)
              \<and> Err rc = None
              \<and> Save store (deleteForPost_infos userId postId otherPostId ! 3) sc = (rd, s1)
              \<and> Err rd = None)
          \<and> DeleteForPost store postId s1 = (r2, s2) \<and> Err r2 = None
          \<and> GetForPost store postId s2 = (r3, s3) \<and> Err r3 = None
          \<and> Data r3 = FileInfoSlice []))
   \<and> (\<forall>saved s1 r2 s2 r3 s3 l.
            save_all store (deleteForPost_infos userId postId otherPostId) s0 = Inr (saved, s1)
          \<and> DeleteForPost store postId s1 = (r2, s2) \<and> Err r2 = None
          \<and> GetForPost store postId s2 = (r3, s3) \<and> Err r3 = None
          \<and> Data r3 = FileInfoSlice l
          \<longrightarrow> TestFileInfoDeleteForPost store userId postId otherPostId s0
                = (if l \<noteq> [] then Fatal ''shouldn't have returned any file infos'' else Pass))"
proof (intro conjI impI allI)
  show "map fi_PostId (deleteForPost_infos userId postId otherPostId)
     = [postId, postId, postId, otherPostId]"
    by (simp add: deleteForPost_infos_def)
  show "map fi_DeleteAt (deleteForPost_infos userId postId otherPostId) = [0, 0, 123, 0]"
    by (simp add: deleteForPost_infos_def)
next
  let ?infos = "deleteForPost_infos userId postId otherPostId"
  assume pass: "TestFileInfoDeleteForPost store userId postId otherPostId s0 = Pass"
  then obtain saved s1 where a1: "save_all store ?infos s0 = Inr (saved, s1)"
    by (cases "save_all store ?infos s0") (auto simp add: TestFileInfoDeleteForPost_def)
  have len: "length saved = 4"
    using save_all_length [OF a1] by (simp add: deleteForPost_infos_def)
  have four: "\<exists>ra sa rb sb rc sc rd.
                Save store (?infos ! 0) s0 = (ra, sa) \<and> Err ra = None
              \<and> Save store (?infos ! 1) sa = (rb, sb) \<and> Err rb = None
              \<and> Save store (?infos ! 2) sb = (rc, sc) \<and> Err rc = None
              \<and> Save store (?infos ! 3) sc = (rd, s1) \<and> Err rd = None"
    using save_all_four [of store "?infos ! 0" "?infos ! 1" "?infos ! 2" "?infos ! 3" s0 saved s1]
      a1 by (simp add: deleteForPost_infos_def)
  obtain r2 s2 where a2: "DeleteForPost store postId s1 = (r2, s2)"
    by (cases "DeleteForPost store postId s1")
  from pass a1 a2 have e2: "Err r2 = None"
    by (simp add: TestFileInfoDeleteForPost_def split: option.splits)
  obtain r3 s3 where a3: "GetForPost store postId s2 = (r3, s3)"
    by (cases "GetForPost store postId s2")
  from pass a1 a2 e2 a3 have e3: "Err r3 = None"
    by (simp add: TestFileInfoDeleteForPost_def Must_def split: option.splits)
  from pass a1 a2 e2 a3 e3 obtain l where d3: "Data r3 = FileInfoSlice l"
    by (cases "Data r3") (simp_all add: TestFileInfoDeleteForPost_def Must_def as_FileInfoSlice_def)
  from pass a1 a2 e2 a3 e3 d3 have "l = []"
    by (simp add: TestFileInfoDeleteForPost_def Must_def as_FileInfoSlice_def split: if_splits)
  with a1 len four a2 e2 a3 e3 d3
  show "\<exists>saved s1 r2 s2 r3 s3.
            save_all store ?infos s0 = Inr (saved, s1)
          \<and> length saved = 4
          \<and> (\<exists>ra sa rb sb rc sc rd.
                Save store (?infos ! 0) s0 = (ra, sa) \<and> Err ra = None
              \<and> Save store (?infos ! 1) sa = (rb, sb) \<and> Err rb = None
              \<and> Save store (?infos ! 2) sb = (rc, sc) \<and> Err rc = None
              \<and> Save store (?infos ! 3) sc = (rd, s1) \<and> Err rd = None)
          \<and> DeleteForPost store postId s1 = (r2, s2) \<and> Err r2 = None
          \<and> GetForPost store postId s2 = (r3, s3) \<and> Err r3 = None
          \<and> Data r3 = FileInfoSlice []"
    by blast
next
  fix saved s1 r2 s2 r3 s3 l
  assume "save_all store (deleteForPost_infos userId postId otherPostId) s0 = Inr (saved, s1)
          \<and> DeleteForPost store postId s1 = (r2, s2) \<and> Err r2 = None
          \<and> GetForPost store postId s2 = (r3, s3) \<and> Err r3 = None
          \<and> Data r3 = FileInfoSlice l"
  then show "TestFileInfoDeleteForPost store userId postId otherPostId s0
                = (if l \<noteq> [] then Fatal ''shouldn't have returned any file infos'' else Pass)"
    by (simp add: TestFileInfoDeleteForPost_def Must_def as_FileInfoSlice_def)
qed


theorem TestFileInfoDeleteForPost_witness:
  "TestFileInfoDeleteForPost mem_store ''u1'' ''p1'' ''p2'' (0, []) = Pass
   \<and> (\<exists>saved s1 r2 s2 r3 s3.
          save_all mem_store (deleteForPost_infos ''u1'' ''p1'' ''p2'') (0, []) = Inr (saved, s1)
        \<and> length saved = 4
        \<and> DeleteForPost mem_store ''p1'' s1 = (r2, s2) \<and> Err r2 = None
        \<and> GetForPost mem_store ''p1'' s2 = (r3, s3) \<and> Err r3 = None
        \<and> Data r3 = FileInfoSlice [])
   \<and> TestFileInfoDeleteForPost lazy_store ''u1'' ''p1'' ''p2'' (0, [])
       = Fatal ''shouldn't have returned any file infos''"
proof -
  have p: "TestFileInfoDeleteForPost mem_store ''u1'' ''p1'' ''p2'' (0, []) = Pass"
    by code_simp
  note a = TestFileInfoDeleteForPost_spec [of "''u1''" "''p1''" "''p2''" mem_store "(0, [])",
      THEN conjunct2, THEN conjunct2, THEN conjunct1, THEN mp, OF p]
  have a': "\<exists>saved s1 r2 s2 r3 s3.
          save_all mem_store (deleteForPost_infos ''u1'' ''p1'' ''p2'') (0, []) = Inr (saved, s1)
        \<and> length saved = 4
        \<and> DeleteForPost mem_store ''p1'' s1 = (r2, s2) \<and> Err r2 = None
        \<and> GetForPost mem_store ''p1'' s2 = (r3, s3) \<and> Err r3 = None
        \<and> Data r3 = FileInfoSlice []"
    using a by blast
  let ?r = "\<lambda>n p d. \<lparr>fi_Id = n, fi_CreatorId = ''u1'', fi_PostId = p,
                       fi_Path = ''file.txt'', fi_DeleteAt = d\<rparr>"
  let ?recs = "[?r ''id-1'' ''p1'' 0, ?r ''id-2'' ''p1'' 0, ?r ''id-3'' ''p1'' 123, ?r ''id-4'' ''p2'' 0]"
  have s: "save_all lazy_store (deleteForPost_infos ''u1'' ''p1'' ''p2'') (0, [])
             = Inr (map Some ?recs, (4, ?recs))"
    by code_simp
  have d: "DeleteForPost lazy_store ''p1'' (4, ?recs) = (\<lparr>Data = NilData, Err = None\<rparr>, (4, ?recs))"
    by (simp add: lazy_store_def mem_store_def)
  have g: "GetForPost lazy_store ''p1'' (4, ?recs)
             = (\<lparr>Data = FileInfoSlice [Some (?r ''id-1'' ''p1'' 0), Some (?r ''id-2'' ''p1'' 0)],
                 Err = None\<rparr>, (4, ?recs))"
    by (simp add: lazy_store_def mem_store_def mem_GetForPost_def)
  have "TestFileInfoDeleteForPost lazy_store ''u1'' ''p1'' ''p2'' (0, [])
          = (if [Some (?r ''id-1'' ''p1'' 0), Some (?r ''id-2'' ''p1'' 0)] \<noteq> []
             then Fatal ''shouldn't have returned any file infos'' else Pass)"
    by (rule TestFileInfoDeleteForPost_spec [of "''u1''" "''p1''" "''p2''" lazy_store "(0, [])",
          THEN conjunct2, THEN conjunct2, THEN conjunct2, rule_format,
          of "map Some ?recs" "(4, ?recs)" "\<lparr>Data = NilData, Err = None\<rparr>" "(4, ?recs)"
             "\<lparr>Data = FileInfoSlice [Some (?r ''id-1'' ''p1'' 0), Some (?r ''id-2'' ''p1'' 0)],
               Err = None\<rparr>" "(4, ?recs)"])
       (simp add: s d g)
  then have b: "TestFileInfoDeleteForPost lazy_store ''u1'' ''p1'' ''p2'' (0, [])
       = Fatal ''shouldn't have returned any file infos''"
    by simp
  from p a' b show ?thesis by (intro conjI)
qed


text \<open>
  Claim C2 as stated fails where it says that the fields are zero when the body does not
  decode: \<open>buildError\<close> drops the decoder's error and copies the first error the decoder
  left in the envelope. Here the decoder reports a syntax error and the returned \<open>*Error\<close>
  still carries the code and the message of that first error.
\<close>

theorem query_error_response_counterexample:
  "snd (xml_Decode_errors demo_env_truncated demo_truncated_body zero_xmlErrors)
     = Some (LibError ''XML syntax error: unexpected EOF'')
   \<and> out_err (query demo_env_truncated (NewWithClient () demo_region truncated_client)
              (makeParams ''DescribeInstances'') ''zero'' state0)
     = Some (EC2Error \<lparr>StatusCode = 403, Code = ''AuthFailure'', Message = ''bad'',
               RequestId = ''''\<rparr>)"
  by (simp add: query_def buildError_def Let_def http_Get_def demo_env_truncated_def demo_env_def
      truncating_Decode_errors_def NewWithClient_def demo_region_def demo_url_Parse_def
      truncated_client_def state0_def zero_Error_def)


section \<open>The operations: one map, one request\<close>

lemma makeParams_Action: "makeParams action ''Action'' = Some action"
  by (simp add: makeParams_def)

lemma for_range_keeps:
  fixes body :: "nat \<Rightarrow> 'a \<Rightarrow> params \<Rightarrow> params"
  assumes "\<forall>i x s. body i x s key = s key"
  shows "for_range body xs p key = p key"
  by (rule for_range_frame) (simp add: assms)

lemma addParams_Action: "addParams f p ''Action'' = p ''Action''"
proof (cases f)
  case None
  then show ?thesis by (simp add: addParams_def)
next
  case (Some flt)
  show ?thesis
    unfolding Some
    by (rule addParams_frame) (simp_all add: filterNameKey_def filterValueKey_def)
qed

lemma addGroupIds_frame:
  assumes "\<forall>rest. k \<noteq> key @ rest"
  shows "addGroupIds key gs p k = p k"
proof -
  define body where "body = (\<lambda>(_::nat) (g::SecurityGroup) (params :: params, i :: int).
             if sg_Id g \<noteq> '''' then (params(key @ Itoa i \<mapsto> sg_Id g), i + 1) else (params, i))"
  have "fst (for_range_from n body gs (p, c)) k = p k" for n c
  proof (induction gs arbitrary: n p c)
    case Nil
    then show ?case by simp
  next
    case (Cons g gs)
    show ?case
    proof (cases "sg_Id g = []")
      case True
      then have "body n g (p, c) = (p, c)"
        by (simp add: body_def)
      then show ?thesis
        using Cons.IH [of "Suc n" p c] by (simp only: for_range_from.simps)
    next
      case False
      then have "body n g (p, c) = (p(key @ Itoa c \<mapsto> sg_Id g), c + 1)"
        by (simp add: body_def)
      moreover have "(p(key @ Itoa c \<mapsto> sg_Id g)) k = p k"
        using assms by simp
      ultimately show ?thesis
        using Cons.IH [of "Suc n" "p(key @ Itoa c \<mapsto> sg_Id g)" "c + 1"]
        by (simp only: for_range_from.simps)
    qed
  qed
  then show ?thesis
    by (simp add: addGroupIds_def for_range_def body_def)
qed

lemma addGroupIdsOrNames_frame:
  assumes "\<forall>rest. k \<noteq> idKey @ rest" and "\<forall>rest. k \<noteq> nameKey @ rest"
  shows "addGroupIdsOrNames idKey nameKey gs p k = p k"
proof -
  define body where "body = (\<lambda>(_::nat) (g::SecurityGroup) (params :: params, i :: int, j :: int).
             if sg_Id g \<noteq> '''' then (params(idKey @ Itoa i \<mapsto> sg_Id g), i + 1, j)
             else (params(nameKey @ Itoa j \<mapsto> sg_Name g), i, j + 1))"
  have "fst (for_range_from n body gs (p, a, b)) k = p k" for n a b
  proof (induction gs arbitrary: n p a b)
    case Nil
    then show ?case by simp
  next
    case (Cons g gs)
    show ?case
    proof (cases "sg_Id g = []")
      case True
      then have "body n g (p, a, b) = (p(nameKey @ Itoa b \<mapsto> sg_Name g), a, b + 1)"
        by (simp add: body_def)
      moreover have "(p(nameKey @ Itoa b \<mapsto> sg_Name g)) k = p k"
        using assms by simp
      ultimately show ?thesis
        using Cons.IH [of "Suc n" "p(nameKey @ Itoa b \<mapsto> sg_Name g)" a "b + 1"]
        by (simp only: for_range_from.simps)
    next
      case False
      then have "body n g (p, a, b) = (p(idKey @ Itoa a \<mapsto> sg_Id g), a + 1, b)"
        by (simp add: body_def)
      moreover have "(p(idKey @ Itoa a \<mapsto> sg_Id g)) k = p k"
        using assms by simp
      ultimately show ?thesis
        using Cons.IH [of "Suc n" "p(idKey @ Itoa a \<mapsto> sg_Id g)" "a + 1" b]
        by (simp only: for_range_from.simps)
    qed
  qed
  then show ?thesis
    by (simp add: addGroupIdsOrNames_def for_range_def body_def)
qed

lemma permGroupStep_Action:
  "permGroupStep (''IpPermissions.'' @ x) j g s ''Action'' = s ''Action''"
  by (simp add: permGroupStep_def Let_def set_if_apply)

lemma permStep_Action: "permStep i perm s ''Action'' = s ''Action''"
  by (simp add: permStep_def Let_def for_range_keeps permGroupStep_Action [simplified])


lemmas frame_rules = makeParams_Action set_if_apply addParamsList_other addParams_Action
  for_range_keeps addGroupIds_frame addGroupIdsOrNames_frame addBlockDeviceParams_other
  permStep_Action Let_def

lemma RunInstances_Action: "RunInstances_params env options ''Action'' = Some ''RunInstances''"
  by (simp add: RunInstances_params_def RunInstances_rest_def RunInstances_head_def
      network_other split_beta frame_rules split: option.split)

lemma RequestSpotInstances_Action:
  "RequestSpotInstances_params env options ''Action'' = Some ''RequestSpotInstances''"
  by (simp add: RequestSpotInstances_params_def RequestSpotInstances_network_def frame_rules
      split: option.split)

lemma ModifyInstance_Action:
  "ModifyInstance_params env instId options ''Action'' = Some ''ModifyInstanceAttribute''"
  by (simp add: ModifyInstance_params_def frame_rules split: option.split)

lemma ModifyImageAttribute_Action:
  "ModifyImageAttribute_params imageId options ''Action'' = Some ''ModifyImageAttribute''"
  by (simp add: ModifyImageAttribute_params_def frame_rules)

lemma authOrRevoke_Action: "authOrRevoke_params op grp perms ''Action'' = Some op"
  by (simp add: authOrRevoke_params_def frame_rules)

lemma call_params_Action: "call_params env call ''Action'' = Some (action_name call)"
  by (cases call)
     (simp_all add: call_params_def action_name_def RunInstances_Action
        RequestSpotInstances_Action ModifyInstance_Action ModifyImageAttribute_Action
        authOrRevoke_Action
        DescribeSpotRequests_params_def CancelSpotRequests_params_def
        TerminateInstances_params_def DescribeInstances_params_def
        DescribeInstanceStatus_params_def CreateKeyPair_params_def DeleteKeyPair_params_def
        ImportKeyPair_params_def CreateTags_params_def StartInstances_params_def
        StopInstances_params_def RebootInstances_params_def
        DescribeReservedInstances_params_def CreateImage_params_def Images_params_def
        ImagesByOwners_params_def ImageAttribute_params_def RegisterImage_params_def
        DeregisterImage_params_def CopyImage_params_def CreateSnapshot_params_def
        DeleteSnapshots_params_def Snapshots_params_def AttachVolume_params_def
        CreateVolume_params_def DeleteVolume_params_def DetachVolume_params_def
        Volumes_params_def CreateSecurityGroup_params_def SecurityGroups_params_def
        DeleteSecurityGroup_params_def DescribeAddresses_params_def
        AllocateAddress_params_def ReleaseAddress_params_def AssociateAddress_params_def
        DisassociateAddress_params_def frame_rules)


end
